theory Spec2Isabelle
  imports Complex_Main
begin

section \<open>JavaScript numbers and strings\<close>

text \<open>
  The TypeScript sources compute with JavaScript numbers. They are modelled as exact
  rationals: \<open>Math.min\<close> and \<open>Math.max\<close> are \<open>min\<close> and \<open>max\<close>, the literal
  \<open>0.15\<close> is \<open>15 / 100\<close>, and \<open>Math.round\<close> rounds to the nearest integer with
  halves going up, which is \<open>\<lfloor>x + 1/2\<rfloor>\<close>.
\<close>

definition Math_round :: "rat \<Rightarrow> rat" where
  "Math_round x = of_int \<lfloor>x + 1 / 2\<rfloor>"

text \<open>
  Strings are lists of characters. \<open>toLowerCase\<close> is modelled on the ASCII letters,
  \<open>String.prototype.includes\<close> is the substring test, and \<open>Array.prototype.join\<close>
  puts the separator between the elements.
\<close>

definition lowerChar :: "char \<Rightarrow> char" where
  "lowerChar c =
     (case map_of (zip ''ABCDEFGHIJKLMNOPQRSTUVWXYZ'' ''abcdefghijklmnopqrstuvwxyz'') c of
        None \<Rightarrow> c
      | Some l \<Rightarrow> l)"

definition toLowerCase :: "string \<Rightarrow> string" where
  "toLowerCase s = map lowerChar s"

fun startsWith :: "string \<Rightarrow> string \<Rightarrow> bool" where
  "startsWith s [] = True"
| "startsWith [] (y # ys) = False"
| "startsWith (x # xs) (y # ys) = (x = y \<and> startsWith xs ys)"

fun str_includes :: "string \<Rightarrow> string \<Rightarrow> bool" where
  "str_includes [] sub = (sub = [])"
| "str_includes (x # xs) sub = (startsWith (x # xs) sub \<or> str_includes xs sub)"

fun join :: "string \<Rightarrow> string list \<Rightarrow> string" where
  "join sep [] = []"
| "join sep [x] = x"
| "join sep (x # y # ys) = x @ sep @ join sep (y # ys)"

section \<open>Exceptions\<close>

text \<open>
  A call that can throw returns a sum: \<open>Inl\<close> carries the thrown value, \<open>Inr\<close> the
  result. \<open>andThen\<close> sequences two such calls; the second one does not run when the
  first has thrown.
\<close>

datatype exn = NotFound string | Failure string

fun errorText :: "exn \<Rightarrow> string" where
  "errorText (NotFound m) = ''Error: '' @ m"
| "errorText (Failure m) = ''Error: '' @ m"

definition andThen :: "exn + 'a \<Rightarrow> ('a \<Rightarrow> exn + 'b) \<Rightarrow> exn + 'b" where
  "andThen r f = (case r of Inl e \<Rightarrow> Inl e | Inr x \<Rightarrow> f x)"

section \<open>Data model of the BugX toolkit\<close>

datatype Severity = Low | Medium | High | Critical

record PatternSignature =
  sig_id :: string
  sig_name :: string
  sig_category :: string
  sig_keywords :: "string list"
  sig_contextClues :: "(string \<times> (string \<Rightarrow> bool)) list"
  sig_recommendation :: string

record PatternMatch =
  pm_signature :: PatternSignature
  pm_confidence :: rat
  pm_matchedKeywords :: "string list"
  pm_matchedClues :: "string list"
  pm_recommendation :: string

record AntiPattern =
  ap_name :: string
  ap_severity :: Severity
  ap_impact :: string
  ap_solution :: string

record PatternTemplate =
  tpl_name :: string
  tpl_errorType :: string
  tpl_steps :: "string list"
  tpl_prevention :: "string list"
  tpl_usageCount :: nat

record ContextInput =
  ci_errorMessage :: string
  ci_stackTrace :: string
  ci_codeContext :: string
  ci_fileName :: string
  ci_patternMatches :: "(string \<times> rat) list"
  ci_antiPatterns :: "(string \<times> Severity) list"

record ContextAnalysisResult =
  ca_complexity :: string
  ca_estimatedTime :: rat
  ca_recommendedApproach :: string
  ca_errorCategory :: string

record TeamIntegration =
  notifyOnCritical :: bool
  sharePatterns :: bool
  requireReviews :: bool

record BugXWorkflowConfig =
  cfg_timeTarget :: rat
  cfg_aiAssisted :: bool
  cfg_metricsEnabled :: bool
  cfg_preventionRequired :: bool
  cfg_documentationRequired :: bool
  cfg_patternRecognitionEnabled :: bool
  cfg_teamIntegration :: TeamIntegration

text \<open>\<open>Partial<BugXWorkflowConfig>\<close>: every key may be absent.\<close>

record ConfigOptions =
  opt_timeTarget :: "rat option"
  opt_aiAssisted :: "bool option"
  opt_metricsEnabled :: "bool option"
  opt_preventionRequired :: "bool option"
  opt_documentationRequired :: "bool option"
  opt_patternRecognitionEnabled :: "bool option"
  opt_teamIntegration :: "TeamIntegration option"

definition DEFAULT_CONFIG :: BugXWorkflowConfig where
  "DEFAULT_CONFIG =
     \<lparr>cfg_timeTarget = 45 / 10, cfg_aiAssisted = True, cfg_metricsEnabled = True,
      cfg_preventionRequired = True, cfg_documentationRequired = True,
      cfg_patternRecognitionEnabled = True,
      cfg_teamIntegration =
        \<lparr>notifyOnCritical = True, sharePatterns = True, requireReviews = False\<rparr>\<rparr>"

definition noOptions :: ConfigOptions where
  "noOptions =
     \<lparr>opt_timeTarget = None, opt_aiAssisted = None, opt_metricsEnabled = None,
      opt_preventionRequired = None, opt_documentationRequired = None,
      opt_patternRecognitionEnabled = None, opt_teamIntegration = None\<rparr>"

text \<open>
  The object spread \<open>{ ...config, ...options }\<close>: a key present in \<open>options\<close> wins, and
  \<open>teamIntegration\<close> is replaced as a whole (the spread is shallow).
\<close>

definition orElse :: "'a option \<Rightarrow> 'a \<Rightarrow> 'a" where
  "orElse v d = (case v of None \<Rightarrow> d | Some x \<Rightarrow> x)"

definition mergeConfig :: "BugXWorkflowConfig \<Rightarrow> ConfigOptions \<Rightarrow> BugXWorkflowConfig" where
  "mergeConfig config options =
     \<lparr>cfg_timeTarget = orElse (opt_timeTarget options) (cfg_timeTarget config),
      cfg_aiAssisted = orElse (opt_aiAssisted options) (cfg_aiAssisted config),
      cfg_metricsEnabled = orElse (opt_metricsEnabled options) (cfg_metricsEnabled config),
      cfg_preventionRequired =
        orElse (opt_preventionRequired options) (cfg_preventionRequired config),
      cfg_documentationRequired =
        orElse (opt_documentationRequired options) (cfg_documentationRequired config),
      cfg_patternRecognitionEnabled =
        orElse (opt_patternRecognitionEnabled options) (cfg_patternRecognitionEnabled config),
      cfg_teamIntegration = orElse (opt_teamIntegration options) (cfg_teamIntegration config)\<rparr>"

record ErrorDetails =
  ed_message :: string
  ed_stackTrace :: string
  ed_codeContext :: string
  ed_fileName :: string
  ed_component :: string

record TeamFeedback =
  fb_helpful :: int
  fb_notHelpful :: int
  fb_comments :: "string list"

record TeamKnowledgeEntry =
  tk_id :: string
  tk_title :: string
  tk_errorSignature :: string
  tk_solution :: string
  tk_prevention :: string
  tk_sharedBy :: string
  tk_sharedAt :: int
  tk_usageCount :: int
  tk_effectiveness :: int
  tk_teamFeedback :: TeamFeedback

datatype Approach = quick_fix | bugx_v14 | full_bugx

record WorkflowMetrics =
  m_efficiency :: rat
  m_qualityScore :: rat
  m_teamImpact :: rat

record BugXWorkflowResult =
  res_sessionId :: string
  res_success :: bool
  res_timeSpent :: rat
  res_approach :: Approach
  res_patternMatches :: "PatternMatch list"
  res_antiPatterns :: "AntiPattern list"
  res_appliedTemplate :: "PatternTemplate option"
  res_preventionMeasures :: "string list"
  res_documentationCreated :: bool
  res_metrics :: WorkflowMetrics
  res_recommendations :: "string list"
  res_nextSteps :: "string list"

section \<open>Integration system: quality score\<close>

text \<open>
  Field names of the records carry a short prefix naming the record (\<open>qf_\<close>, \<open>res_\<close>,
  \<open>cfg_\<close>, ...), since several interfaces of the source share field names.
\<close>

record QualityFactors =
  qf_appliedTemplate :: bool
  qf_preventionMeasures :: rat
  qf_patternMatchConfidence :: rat
  qf_contextComplexity :: string

text \<open>
  \<open>calculateQualityScore\<close> of the integration system. The source updates a local
  \<open>score\<close> statement by statement; each \<open>let\<close> below is one statement.
\<close>

definition calculateQualityScore :: "QualityFactors \<Rightarrow> rat" where
  "calculateQualityScore factors =
     (let score0 = 50;
          score1 = (if qf_appliedTemplate factors then score0 + 20 else score0);
          score2 = score1 + min 20 (qf_preventionMeasures factors * 5);
          score3 = score2 + min 15 (qf_patternMatchConfidence factors * (15 / 100));
          score4 = (if qf_contextComplexity factors = ''simple'' then score3 + 10
                    else if qf_contextComplexity factors = ''moderate'' then score3 + 5
                    else score3)
      in min 100 (Math_round score4))"



section \<open>Collaborators of the orchestrator\<close>

text \<open>
  The pattern recognition engine, the context analysis engine, the core template system,
  the prompt library and the implementation engine are imported by the integration
  system; the orchestrator only calls them. They are parameters of the model, and each
  call may throw. \<open>numberToString\<close> is JavaScript's conversion of a number inside a
  template literal.
\<close>

record WorkflowContext =
  wc_errorType :: string
  wc_contextAnalysis :: ContextAnalysisResult
  wc_patternMatches :: "PatternMatch list"
  wc_appliedTemplate :: "PatternTemplate option"
  wc_teamKnowledge :: "TeamKnowledgeEntry list"

record ImplementationRequest =
  ir_errorAnalysis :: ContextAnalysisResult
  ir_selectedTemplate :: "PatternTemplate option"
  ir_codeContext :: string
  ir_patternMatches :: "PatternMatch list"
  ir_preventionRequired :: bool

record ImplementationResult =
  impl_steps :: "string list"
  impl_preventionMeasures :: "string list"

record Collaborators =
  analyzeError :: "string \<Rightarrow> string \<Rightarrow> string \<Rightarrow> string \<Rightarrow> exn + PatternMatch list"
  detectAntiPatterns :: "string \<Rightarrow> string \<Rightarrow> exn + AntiPattern list"
  analyzeContext :: "ContextInput \<Rightarrow> exn + ContextAnalysisResult"
  getTemplate :: "string \<Rightarrow> exn + PatternTemplate"
  recordTemplateUsage :: "string \<Rightarrow> bool \<Rightarrow> exn + unit"
  generateWorkflowPrompts :: "WorkflowContext \<Rightarrow> exn + string list"
  generateImplementation :: "ImplementationRequest \<Rightarrow> exn + ImplementationResult"
  numberToString :: "rat \<Rightarrow> string"

section \<open>Metrics collector\<close>

record SessionOutcome =
  out_patternUsed :: "string option"
  out_approach :: Approach
  out_success :: bool
  out_preventionApplied :: bool
  out_documentationCreated :: bool
  out_satisfactionRating :: "rat option"
  out_notes :: string

record BugXSession =
  s_id :: string
  s_developer :: string
  s_errorMessage :: string
  s_component :: string
  s_outcome :: "SessionOutcome option"

record CodeExamples =
  ex_before :: string
  ex_after :: string
  ex_prevention :: string

record DocumentationEntry =
  doc_title :: string
  doc_errorType :: string
  doc_component :: string
  doc_issue :: string
  doc_rootCause :: string
  doc_solution :: string
  doc_prevention :: string
  doc_patternTemplate :: string
  doc_category :: string
  doc_reusability :: string
  doc_timeToFix :: rat
  doc_confidence :: rat
  doc_codeExamples :: CodeExamples
  doc_teamNotes :: string

record MetricsStore =
  sessions :: "BugXSession list"
  documentationLog :: "DocumentationEntry list"

text \<open>
  Modelled from the spec: the metrics collector (\<open>metrics-system\<close>) is not among the
  sources. The specification gives its contract: \<open>startSession\<close> opens a session record
  and returns its id; \<open>completeSession\<close> finalizes the session of that id and fails
  silently, without raising, when the id is unknown; \<open>addDocumentation\<close> appends to a
  documentation log. The id a new session gets is chosen by the collector and is an
  input of the model; timestamps are left out.
\<close>

definition startSession ::
  "string \<Rightarrow> string \<Rightarrow> string \<Rightarrow> string \<Rightarrow> MetricsStore \<Rightarrow> string \<times> MetricsStore" where
  "startSession newId developer errorMessage component store =
     (newId,
      store\<lparr>sessions := sessions store @
        [\<lparr>s_id = newId, s_developer = developer, s_errorMessage = errorMessage,
          s_component = component, s_outcome = None\<rparr>]\<rparr>)"

fun finalize :: "string \<Rightarrow> SessionOutcome \<Rightarrow> BugXSession list \<Rightarrow> BugXSession list" where
  "finalize sid outcome [] = []"
| "finalize sid outcome (s # ss) =
     (if s_id s = sid then s\<lparr>s_outcome := Some outcome\<rparr> # ss
      else s # finalize sid outcome ss)"

definition completeSession :: "string \<Rightarrow> SessionOutcome \<Rightarrow> MetricsStore \<Rightarrow> MetricsStore" where
  "completeSession sid outcome store = store\<lparr>sessions := finalize sid outcome (sessions store)\<rparr>"

definition addDocumentation :: "DocumentationEntry \<Rightarrow> MetricsStore \<Rightarrow> MetricsStore" where
  "addDocumentation entry store = store\<lparr>documentationLog := documentationLog store @ [entry]\<rparr>"

text \<open>A session of the given id has been completed as failed.\<close>

definition sessionFailed :: "string \<Rightarrow> MetricsStore \<Rightarrow> bool" where
  "sessionFailed sid store =
     list_ex (\<lambda>s. s_id s = sid \<and>
                (case s_outcome s of None \<Rightarrow> False | Some outcome \<Rightarrow> \<not> out_success outcome))
       (sessions store)"

section \<open>Integration system: state\<close>

text \<open>
  The static fields \<open>config\<close> and \<open>teamKnowledge\<close> of \<open>BugXIntegrationSystem\<close>, the
  collector's store, and the team notifications written so far. A notification is what
  \<open>notifyTeamOfCriticalIssues\<close> prints: the developer, the session and the critical
  anti-patterns. Other console output is not modelled.
\<close>

record TeamNotification =
  tn_developer :: string
  tn_sessionId :: string
  tn_criticalPatterns :: "AntiPattern list"

record SystemState =
  st_config :: BugXWorkflowConfig
  st_teamKnowledge :: "TeamKnowledgeEntry list"
  st_metrics :: MetricsStore
  st_notifications :: "TeamNotification list"

text \<open>
  What one run reads from the clock and the random generator: \<open>Date.now()\<close> at the start
  of the run, in the session id made when metrics are disabled, and at the end of the
  run (phase 9, or the handler); the id the collector gives the new session; the id and
  the date \<open>shareWithTeam\<close> gives the new entry.
\<close>

record RunInputs =
  in_startTime :: int
  in_sessionTime :: int
  in_endTime :: int
  in_metricsSessionId :: string
  in_teamEntryId :: string
  in_sharedAt :: int

section \<open>Integration system: helper methods\<close>

definition firstConfidence :: "PatternMatch list \<Rightarrow> rat \<Rightarrow> rat" where
  \<comment> \<open>\<open>patternMatches[0]?.confidence || d\<close>: a missing match and a confidence of 0 give \<open>d\<close>.\<close>
  "firstConfidence patternMatches d =
     (case patternMatches of
        [] \<Rightarrow> d
      | m # rest \<Rightarrow> if pm_confidence m = 0 then d else pm_confidence m)"

definition inferErrorType :: "string \<Rightarrow> PatternMatch list \<Rightarrow> string" where
  "inferErrorType errorMessage patternMatches =
     (let fromPattern =
        (case patternMatches of
           [] \<Rightarrow> None
         | m # rest \<Rightarrow>
             if pm_confidence m > 70 then
               (let patternName = toLowerCase (sig_name (pm_signature m)) in
                if str_includes patternName ''hydration'' then Some ''hydration_error''
                else if str_includes patternName ''scope'' \<or> str_includes patternName ''temporal''
                  then Some ''scope_error''
                else if str_includes patternName ''null'' \<or> str_includes patternName ''undefined''
                  then Some ''null_reference''
                else if str_includes patternName ''api'' \<or> str_includes patternName ''cors''
                  then Some ''api_integration''
                else None)
             else None)
      in case fromPattern of
           Some t \<Rightarrow> t
         | None \<Rightarrow>
             (let message = toLowerCase errorMessage in
              if str_includes message ''hydration'' then ''hydration_error''
              else if str_includes message ''cannot access''
                      \<or> str_includes message ''before initialization'' then ''scope_error''
              else if str_includes message ''null'' \<or> str_includes message ''undefined''
                then ''null_reference''
              else if str_includes message ''cors'' \<or> str_includes message ''fetch''
                then ''api_integration''
              else if str_includes message ''validation'' \<or> str_includes message ''invalid''
                then ''validation_error''
              else ''generic_error''))"

definition inferDocumentationCategory :: "string \<Rightarrow> string" where
  "inferDocumentationCategory errorMessage =
     (let message = toLowerCase errorMessage in
      if str_includes message ''api'' \<or> str_includes message ''fetch''
         \<or> str_includes message ''cors'' then ''integration''
      else if str_includes message ''hydration'' \<or> str_includes message ''render''
        then ''pattern''
      else if str_includes message ''env'' \<or> str_includes message ''config''
              \<or> str_includes message ''build'' then ''infrastructure''
      else ''business_logic'')"

definition generateDocumentation ::
  "Collaborators \<Rightarrow> ErrorDetails \<Rightarrow> ContextAnalysisResult \<Rightarrow> PatternTemplate option \<Rightarrow>
   string list \<Rightarrow> string list \<Rightarrow> PatternMatch list \<Rightarrow> AntiPattern list \<Rightarrow> DocumentationEntry" where
  "generateDocumentation c errorDetails contextAnalysis appliedTemplate implementationSteps
     preventionMeasures patternMatches antiPatterns =
     \<lparr>doc_title = ed_component errorDetails @ '' - '' @ ca_errorCategory contextAnalysis,
      doc_errorType = ca_errorCategory contextAnalysis,
      doc_component = ed_component errorDetails,
      doc_issue = ed_message errorDetails,
      doc_rootCause =
        (case patternMatches of
           [] \<Rightarrow> ''Standard debugging analysis performed''
         | m # rest \<Rightarrow>
             if pm_recommendation m = [] then ''Standard debugging analysis performed''
             else pm_recommendation m),
      doc_solution = join [CHR 0x0A] implementationSteps,
      doc_prevention = join [CHR 0x0A] preventionMeasures,
      doc_patternTemplate =
        (case appliedTemplate of
           None \<Rightarrow> ''generic-debugging-approach''
         | Some t \<Rightarrow> if tpl_name t = [] then ''generic-debugging-approach'' else tpl_name t),
      doc_category = inferDocumentationCategory (ed_message errorDetails),
      doc_reusability = (if length patternMatches > 0 then ''high'' else ''medium''),
      doc_timeToFix = ca_estimatedTime contextAnalysis,
      doc_confidence = firstConfidence patternMatches 75,
      doc_codeExamples =
        \<lparr>ex_before = take 500 (ed_codeContext errorDetails),
         ex_after = ''Applied fixes based on pattern template'',
         ex_prevention = join [CHR 0x0A] preventionMeasures\<rparr>,
      doc_teamNotes =
        ''Anti-patterns detected: '' @ numberToString c (of_nat (length antiPatterns))
        @ '', Pattern matches: '' @ numberToString c (of_nat (length patternMatches))\<rparr>"

text \<open>
  \<open>shareWithTeam\<close> appends a new entry to \<open>teamKnowledge\<close>; its id is made of the
  clock and a random number, and is an input here.
\<close>

definition shareWithTeam ::
  "string \<Rightarrow> int \<Rightarrow> string \<Rightarrow> string \<Rightarrow> string \<Rightarrow> string \<Rightarrow> string \<Rightarrow>
   TeamKnowledgeEntry list \<Rightarrow> TeamKnowledgeEntry list" where
  "shareWithTeam newId now title errorSignature solution prevention sharedBy teamKnowledge =
     teamKnowledge @
       [\<lparr>tk_id = newId, tk_title = title, tk_errorSignature = errorSignature,
         tk_solution = solution, tk_prevention = prevention, tk_sharedBy = sharedBy,
         tk_sharedAt = now, tk_usageCount = 0, tk_effectiveness = 85,
         tk_teamFeedback = \<lparr>fb_helpful = 0, fb_notHelpful = 0, fb_comments = []\<rparr>\<rparr>]"

definition generateErrorSignature :: "ErrorDetails \<Rightarrow> string" where
  "generateErrorSignature errorDetails =
     ed_message errorDetails @ '':'' @ ed_fileName errorDetails @ '':'' @ ed_component errorDetails"

text \<open>
  \<open>Array.prototype.sort\<close> is stable; sorting by decreasing effectiveness is the stable
  insertion sort on the negated key.
\<close>

definition getRelevantTeamKnowledge ::
  "string \<Rightarrow> TeamKnowledgeEntry list \<Rightarrow> TeamKnowledgeEntry list" where
  "getRelevantTeamKnowledge errorType teamKnowledge =
     take 3 (sort_key (\<lambda>e. - tk_effectiveness e)
       (filter (\<lambda>entry. str_includes (tk_errorSignature entry) errorType
                  \<or> str_includes (toLowerCase (tk_title entry)) (toLowerCase errorType))
          teamKnowledge))"

definition hasCritical :: "AntiPattern list \<Rightarrow> bool" where
  \<comment> \<open>\<open>antiPatterns.some(ap => ap.severity === 'critical')\<close>\<close>
  "hasCritical antiPatterns = list_ex (\<lambda>ap. ap_severity ap = Critical) antiPatterns"

definition notifyTeamOfCriticalIssues ::
  "string \<Rightarrow> AntiPattern list \<Rightarrow> string \<Rightarrow> TeamNotification list \<Rightarrow> TeamNotification list" where
  "notifyTeamOfCriticalIssues developer antiPatterns sid notifications =
     (let criticalPatterns = filter (\<lambda>ap. ap_severity ap = Critical) antiPatterns
      in notifications @
           [\<lparr>tn_developer = developer, tn_sessionId = sid,
             tn_criticalPatterns = criticalPatterns\<rparr>])"

definition calculateEfficiency :: "rat \<Rightarrow> rat \<Rightarrow> rat" where
  "calculateEfficiency actualTime targetTime =
     (if actualTime \<le> targetTime then 100
      else max 0 (Math_round ((targetTime / actualTime) * 100)))"

definition calculateTeamImpact :: "bool \<Rightarrow> rat \<Rightarrow> rat" where
  "calculateTeamImpact documentationCreated preventionCount =
     (let impact0 = 0;
          impact1 = (if documentationCreated then impact0 + 50 else impact0);
          impact2 = impact1 + min 50 (preventionCount * 10)
      in min 100 impact2)"

definition generateRecommendations ::
  "Collaborators \<Rightarrow> rat \<Rightarrow> rat \<Rightarrow> rat \<Rightarrow> PatternMatch list \<Rightarrow> AntiPattern list \<Rightarrow>
   PatternTemplate option \<Rightarrow> string list" where
  "generateRecommendations c timeSpent targetTime qualityScore patternMatches antiPatterns
     appliedTemplate =
     (let r0 = [];
          r1 = (if timeSpent > targetTime then
                  r0 @ [''Consider optimizing pattern recognition - exceeded target time by ''
                        @ numberToString c (Math_round ((timeSpent - targetTime) * 100) / 100)
                        @ '' minutes'']
                else r0);
          r2 = (if qualityScore < 80 then
                  r1 @ [''Improve prevention measures and documentation quality'']
                else r1);
          r3 = (if length patternMatches = 0 then
                  r2 @ [''Add custom pattern for this error type to improve future recognition'']
                else r2);
          r4 = (if length antiPatterns > 0 then
                  (let criticalCount = length (filter (\<lambda>ap. ap_severity ap = Critical) antiPatterns)
                   in if criticalCount > 0 then
                        r3 @ [''Address '' @ numberToString c (of_nat criticalCount)
                              @ '' critical anti-patterns immediately'']
                      else r3)
                else r3);
          r5 = (if appliedTemplate = None then
                  r4 @ [''Create specific template for this error pattern to improve efficiency'']
                else r4)
      in if length r5 > 0 then r5 else [''Excellent work! Continue with current practices.''])"

definition generateNextSteps ::
  "string list \<Rightarrow> AntiPattern list \<Rightarrow> ContextAnalysisResult \<Rightarrow> string list" where
  "generateNextSteps preventionMeasures antiPatterns contextAnalysis =
     (let n0 = [];
          n1 = (if length preventionMeasures > 0 then
                  n0 @ [''Implement all prevention measures to avoid recurrence'']
                else n0);
          n2 = (if length antiPatterns > 0 then
                  n1 @ [''Schedule code review to address detected anti-patterns'']
                else n1);
          n3 = (if ca_complexity contextAnalysis = ''complex'' then
                  n2 @ [''Consider refactoring for better maintainability'']
                else n2)
      in n3 @ [''Test thoroughly to ensure fix works across all scenarios'',
               ''Monitor for similar issues in related components''])"

section \<open>Integration system: the workflow\<close>

text \<open>
  \<open>runCompleteWorkflow\<close>, phase by phase as the source numbers them. Phases 2, 3 and 5
  call collaborators and so may throw. Phase 4 has a handler of its own. Phases 6 to 10
  call methods of the integration system and the metrics collector only.
\<close>

definition phase2_patternRecognition ::
  "Collaborators \<Rightarrow> BugXWorkflowConfig \<Rightarrow> ErrorDetails \<Rightarrow>
   exn + (PatternMatch list \<times> AntiPattern list)" where
  "phase2_patternRecognition c workflowConfig errorDetails =
     (if cfg_patternRecognitionEnabled workflowConfig then
        andThen (analyzeError c (ed_message errorDetails) (ed_stackTrace errorDetails)
                   (ed_codeContext errorDetails) (ed_fileName errorDetails))
          (\<lambda>patternMatches.
             andThen (detectAntiPatterns c (ed_codeContext errorDetails) (ed_fileName errorDetails))
               (\<lambda>antiPatterns. Inr (patternMatches, antiPatterns)))
      else Inr ([], []))"

definition phase3_contextAnalysis ::
  "Collaborators \<Rightarrow> ErrorDetails \<Rightarrow> PatternMatch list \<Rightarrow> AntiPattern list \<Rightarrow>
   exn + ContextAnalysisResult" where
  "phase3_contextAnalysis c errorDetails patternMatches antiPatterns =
     analyzeContext c
       \<lparr>ci_errorMessage = ed_message errorDetails,
        ci_stackTrace = ed_stackTrace errorDetails,
        ci_codeContext = ed_codeContext errorDetails,
        ci_fileName = ed_fileName errorDetails,
        ci_patternMatches = map (\<lambda>m. (sig_name (pm_signature m), pm_confidence m)) patternMatches,
        ci_antiPatterns = map (\<lambda>ap. (ap_name ap, ap_severity ap)) antiPatterns\<rparr>"

text \<open>
  Phase 4: the inner \<open>try\<close> assigns \<open>appliedTemplate\<close> and then records the usage; its
  handler only logs. When \<open>getTemplate\<close> throws, \<open>appliedTemplate\<close> stays undefined; when
  \<open>recordTemplateUsage\<close> throws, the template is already assigned.
\<close>

definition phase4_templateMatching :: "Collaborators \<Rightarrow> string \<Rightarrow> PatternTemplate option" where
  "phase4_templateMatching c errorType =
     (case getTemplate c errorType of
        Inl error \<Rightarrow> None
      | Inr template \<Rightarrow>
          (case recordTemplateUsage c errorType True of
             Inl error \<Rightarrow> Some template
           | Inr u \<Rightarrow> Some template))"

definition phase5_implementation ::
  "Collaborators \<Rightarrow> BugXWorkflowConfig \<Rightarrow> ErrorDetails \<Rightarrow> string \<Rightarrow> ContextAnalysisResult \<Rightarrow>
   PatternMatch list \<Rightarrow> PatternTemplate option \<Rightarrow> TeamKnowledgeEntry list \<Rightarrow>
   exn + (string list \<times> string list)" where
  "phase5_implementation c workflowConfig errorDetails errorType contextAnalysis patternMatches
     appliedTemplate teamKnowledge =
     (if cfg_aiAssisted workflowConfig then
        andThen (generateWorkflowPrompts c
                   \<lparr>wc_errorType = errorType, wc_contextAnalysis = contextAnalysis,
                    wc_patternMatches = patternMatches, wc_appliedTemplate = appliedTemplate,
                    wc_teamKnowledge = getRelevantTeamKnowledge errorType teamKnowledge\<rparr>)
          (\<lambda>prompts.
             andThen (generateImplementation c
                        \<lparr>ir_errorAnalysis = contextAnalysis, ir_selectedTemplate = appliedTemplate,
                         ir_codeContext = ed_codeContext errorDetails,
                         ir_patternMatches = patternMatches,
                         ir_preventionRequired = cfg_preventionRequired workflowConfig\<rparr>)
               (\<lambda>implementation.
                  Inr (impl_steps implementation, impl_preventionMeasures implementation)))
      else Inr ([], []))"

definition phase6_qualityValidation ::
  "PatternTemplate option \<Rightarrow> string list \<Rightarrow> PatternMatch list \<Rightarrow> ContextAnalysisResult \<Rightarrow> rat" where
  "phase6_qualityValidation appliedTemplate preventionMeasures patternMatches contextAnalysis =
     calculateQualityScore
       \<lparr>qf_appliedTemplate = (appliedTemplate \<noteq> None),
        qf_preventionMeasures = of_nat (length preventionMeasures),
        qf_patternMatchConfidence = firstConfidence patternMatches 0,
        qf_contextComplexity = ca_complexity contextAnalysis\<rparr>"

definition phase7_documentation ::
  "Collaborators \<Rightarrow> RunInputs \<Rightarrow> BugXWorkflowConfig \<Rightarrow> string \<Rightarrow> ErrorDetails \<Rightarrow> string \<Rightarrow>
   ContextAnalysisResult \<Rightarrow> PatternTemplate option \<Rightarrow> string list \<Rightarrow> string list \<Rightarrow>
   PatternMatch list \<Rightarrow> AntiPattern list \<Rightarrow> SystemState \<Rightarrow> bool \<times> SystemState" where
  "phase7_documentation c inputs workflowConfig developer errorDetails errorType contextAnalysis
     appliedTemplate implementationSteps preventionMeasures patternMatches antiPatterns st =
     (if cfg_documentationRequired workflowConfig then
        (let documentation =
               generateDocumentation c errorDetails contextAnalysis appliedTemplate
                 implementationSteps preventionMeasures patternMatches antiPatterns;
             st1 = (if cfg_metricsEnabled (st_config st)
                    then st\<lparr>st_metrics := addDocumentation documentation (st_metrics st)\<rparr>
                    else st);
             st2 = (if sharePatterns (cfg_teamIntegration workflowConfig)
                    then st1\<lparr>st_teamKnowledge :=
                           shareWithTeam (in_teamEntryId inputs) (in_sharedAt inputs)
                             (errorType @ '' Resolution'') (generateErrorSignature errorDetails)
                             (join ''; '' implementationSteps) (join ''; '' preventionMeasures)
                             developer (st_teamKnowledge st1)\<rparr>
                    else st1)
         in (True, st2))
      else (False, st))"

definition phase8_teamNotification ::
  "BugXWorkflowConfig \<Rightarrow> string \<Rightarrow> AntiPattern list \<Rightarrow> string \<Rightarrow> SystemState \<Rightarrow> SystemState" where
  "phase8_teamNotification workflowConfig developer antiPatterns sid st =
     (if notifyOnCritical (cfg_teamIntegration workflowConfig) then
        (let hasCriticalAntiPatterns = hasCritical antiPatterns in
         if hasCriticalAntiPatterns then
           st\<lparr>st_notifications :=
                notifyTeamOfCriticalIssues developer antiPatterns sid (st_notifications st)\<rparr>
         else st)
      else st)"

definition minutesBetween :: "int \<Rightarrow> int \<Rightarrow> rat" where
  \<comment> \<open>\<open>(endTime - startTime) / (1000 * 60)\<close>\<close>
  "minutesBetween startTime endTime = (of_int endTime - of_int startTime) / (1000 * 60)"

definition phase9_completeSession ::
  "Collaborators \<Rightarrow> string \<Rightarrow> PatternTemplate option \<Rightarrow> Approach \<Rightarrow> string list \<Rightarrow> bool \<Rightarrow>
   rat \<Rightarrow> PatternMatch list \<Rightarrow> AntiPattern list \<Rightarrow> SystemState \<Rightarrow> SystemState" where
  "phase9_completeSession c sid appliedTemplate approach preventionMeasures documentationCreated
     qualityScore patternMatches antiPatterns st =
     (if cfg_metricsEnabled (st_config st) then
        st\<lparr>st_metrics :=
             completeSession sid
               \<lparr>out_patternUsed = map_option tpl_name appliedTemplate,
                out_approach = approach,
                out_success = True,
                out_preventionApplied = (length preventionMeasures > 0),
                out_documentationCreated = documentationCreated,
                out_satisfactionRating = Some (qualityScore / 10),
                out_notes =
                  ''Pattern matches: '' @ numberToString c (of_nat (length patternMatches))
                  @ '', Anti-patterns: '' @ numberToString c (of_nat (length antiPatterns))\<rparr>
               (st_metrics st)\<rparr>
      else st)"

text \<open>
  The body of the \<open>try\<close> block, in two parts. Phases 2 to 5 compute the local variables
  of the block and stop at the first call that throws.
\<close>

record TryLocals =
  v_patternMatches :: "PatternMatch list"
  v_antiPatterns :: "AntiPattern list"
  v_contextAnalysis :: ContextAnalysisResult
  v_errorType :: string
  v_appliedTemplate :: "PatternTemplate option"
  v_implementationSteps :: "string list"
  v_preventionMeasures :: "string list"

definition phases2to5 ::
  "Collaborators \<Rightarrow> BugXWorkflowConfig \<Rightarrow> ErrorDetails \<Rightarrow> TeamKnowledgeEntry list \<Rightarrow>
   exn + TryLocals" where
  "phases2to5 c workflowConfig errorDetails teamKnowledge =
     andThen (phase2_patternRecognition c workflowConfig errorDetails)
       (\<lambda>(patternMatches, antiPatterns).
     andThen (phase3_contextAnalysis c errorDetails patternMatches antiPatterns)
       (\<lambda>contextAnalysis.
     let errorType = inferErrorType (ed_message errorDetails) patternMatches;
         appliedTemplate = phase4_templateMatching c errorType
     in
     andThen (phase5_implementation c workflowConfig errorDetails errorType contextAnalysis
                patternMatches appliedTemplate teamKnowledge)
       (\<lambda>(implementationSteps, preventionMeasures).
     Inr \<lparr>v_patternMatches = patternMatches, v_antiPatterns = antiPatterns,
          v_contextAnalysis = contextAnalysis, v_errorType = errorType,
          v_appliedTemplate = appliedTemplate, v_implementationSteps = implementationSteps,
          v_preventionMeasures = preventionMeasures\<rparr>)))"

text \<open>Phases 6 to 10 and the result of a successful run.\<close>

definition phases6to10 ::
  "Collaborators \<Rightarrow> RunInputs \<Rightarrow> string \<Rightarrow> ErrorDetails \<Rightarrow> BugXWorkflowConfig \<Rightarrow> int \<Rightarrow> string \<Rightarrow>
   TryLocals \<Rightarrow> SystemState \<Rightarrow> BugXWorkflowResult \<times> SystemState" where
  "phases6to10 c inputs developer errorDetails workflowConfig startTime sid v st =
     (let qualityScore =
            phase6_qualityValidation (v_appliedTemplate v) (v_preventionMeasures v)
              (v_patternMatches v) (v_contextAnalysis v);
          (documentationCreated, st7) =
            phase7_documentation c inputs workflowConfig developer errorDetails (v_errorType v)
              (v_contextAnalysis v) (v_appliedTemplate v) (v_implementationSteps v)
              (v_preventionMeasures v) (v_patternMatches v) (v_antiPatterns v) st;
          st8 = phase8_teamNotification workflowConfig developer (v_antiPatterns v) sid st7;
          timeSpent = minutesBetween startTime (in_endTime inputs);
          approach = (if timeSpent \<le> cfg_timeTarget workflowConfig then bugx_v14 else full_bugx);
          st9 = phase9_completeSession c sid (v_appliedTemplate v) approach (v_preventionMeasures v)
                  documentationCreated qualityScore (v_patternMatches v) (v_antiPatterns v) st8;
          recommendations =
            generateRecommendations c timeSpent (cfg_timeTarget workflowConfig) qualityScore
              (v_patternMatches v) (v_antiPatterns v) (v_appliedTemplate v);
          nextSteps =
            generateNextSteps (v_preventionMeasures v) (v_antiPatterns v) (v_contextAnalysis v)
      in (\<lparr>res_sessionId = sid,
           res_success = True,
           res_timeSpent = Math_round (timeSpent * 100) / 100,
           res_approach = approach,
           res_patternMatches = v_patternMatches v,
           res_antiPatterns = v_antiPatterns v,
           res_appliedTemplate = v_appliedTemplate v,
           res_preventionMeasures = v_preventionMeasures v,
           res_documentationCreated = documentationCreated,
           res_metrics =
             \<lparr>m_efficiency = calculateEfficiency timeSpent (cfg_timeTarget workflowConfig),
              m_qualityScore = qualityScore,
              m_teamImpact =
                calculateTeamImpact documentationCreated
                  (of_nat (length (v_preventionMeasures v)))\<rparr>,
           res_recommendations = recommendations,
           res_nextSteps = nextSteps\<rparr>,
          st9))"

definition tryBlock ::
  "Collaborators \<Rightarrow> RunInputs \<Rightarrow> string \<Rightarrow> ErrorDetails \<Rightarrow> BugXWorkflowConfig \<Rightarrow> int \<Rightarrow> string \<Rightarrow>
   SystemState \<Rightarrow> exn + (BugXWorkflowResult \<times> SystemState)" where
  "tryBlock c inputs developer errorDetails workflowConfig startTime sid st =
     andThen (phases2to5 c workflowConfig errorDetails (st_teamKnowledge st))
       (\<lambda>v. Inr (phases6to10 c inputs developer errorDetails workflowConfig startTime sid v st))"

text \<open>The \<open>catch\<close> block of \<open>runCompleteWorkflow\<close>.\<close>

definition catchBlock ::
  "RunInputs \<Rightarrow> int \<Rightarrow> string \<Rightarrow> exn \<Rightarrow> SystemState \<Rightarrow> BugXWorkflowResult \<times> SystemState" where
  "catchBlock inputs startTime sid error st =
     (let st1 = (if cfg_metricsEnabled (st_config st) then
                   st\<lparr>st_metrics :=
                        completeSession sid
                          \<lparr>out_patternUsed = None,
                           out_approach = bugx_v14,
                           out_success = False,
                           out_preventionApplied = False,
                           out_documentationCreated = False,
                           out_satisfactionRating = None,
                           out_notes = ''Workflow error: '' @ errorText error\<rparr>
                          (st_metrics st)\<rparr>
                 else st);
          timeSpent = minutesBetween startTime (in_endTime inputs)
      in (\<lparr>res_sessionId = sid,
           res_success = False,
           res_timeSpent = Math_round (timeSpent * 100) / 100,
           res_approach = bugx_v14,
           res_patternMatches = [],
           res_antiPatterns = [],
           res_appliedTemplate = None,
           res_preventionMeasures = [],
           res_documentationCreated = False,
           res_metrics = \<lparr>m_efficiency = 0, m_qualityScore = 0, m_teamImpact = 0\<rparr>,
           res_recommendations =
             [''Retry with manual debugging approach'', ''Check system configuration''],
           res_nextSteps = [''Review error logs'', ''Validate input parameters'']\<rparr>,
          st1))"

text \<open>Phase 1 opens the session outside the \<open>try\<close> block.\<close>

definition phase1_initializeSession ::
  "Collaborators \<Rightarrow> RunInputs \<Rightarrow> string \<Rightarrow> ErrorDetails \<Rightarrow> SystemState \<Rightarrow> string \<times> SystemState" where
  "phase1_initializeSession c inputs developer errorDetails st =
     (if cfg_metricsEnabled (st_config st) then
        (let (sid, store) =
               startSession (in_metricsSessionId inputs) developer (ed_message errorDetails)
                 (ed_component errorDetails) (st_metrics st)
         in (sid, st\<lparr>st_metrics := store\<rparr>))
      else (''session-'' @ numberToString c (of_int (in_sessionTime inputs)), st))"

definition runCompleteWorkflow ::
  "Collaborators \<Rightarrow> RunInputs \<Rightarrow> string \<Rightarrow> ErrorDetails \<Rightarrow> ConfigOptions \<Rightarrow> SystemState \<Rightarrow>
   BugXWorkflowResult \<times> SystemState" where
  "runCompleteWorkflow c inputs developer errorDetails options st =
     (let workflowConfig = mergeConfig (st_config st) options;
          startTime = in_startTime inputs;
          (sid, st1) = phase1_initializeSession c inputs developer errorDetails st
      in case tryBlock c inputs developer errorDetails workflowConfig startTime sid st1 of
           Inr finished \<Rightarrow> finished
         | Inl error \<Rightarrow> catchBlock inputs startTime sid error st1)"

section \<open>Core template system and the unified API\<close>

text \<open>
  Modelled from the spec: the core template system (\<open>core-system\<close>) is not among the
  sources. The specification gives the contract of its \<open>getTemplate\<close>: it returns the
  template registered for the error type and fails with a NotFound condition when the
  error type has no registered template.
\<close>

definition BugXCoreSystem_getTemplate ::
  "(string \<rightharpoonup> PatternTemplate) \<Rightarrow> string \<Rightarrow> exn + PatternTemplate" where
  "BugXCoreSystem_getTemplate registry errorType =
     (case registry errorType of
        None \<Rightarrow> Inl (NotFound (''No template found for error type: '' @ errorType))
      | Some template \<Rightarrow> Inr template)"

text \<open>
  \<open>BugXv14.getTemplate\<close> of the unified API wraps the lookup in a handler and answers
  with a record either way. \<open>getTemplateStats\<close> of the core system is a parameter: the
  list of the registered names with their usage counts.
\<close>

datatype TemplateLookup =
  TemplateFound PatternTemplate "(string \<times> nat) list"
| TemplateMissing string "string list"

fun lookupSuccess :: "TemplateLookup \<Rightarrow> bool" where
  "lookupSuccess (TemplateFound template usage) = True"
| "lookupSuccess (TemplateMissing error availableTemplates) = False"

fun errorMessage :: "exn \<Rightarrow> string" where
  "errorMessage (NotFound m) = m"
| "errorMessage (Failure m) = m"

definition BugXv14_getTemplate ::
  "Collaborators \<Rightarrow> (string \<times> nat) list \<Rightarrow> string \<Rightarrow> TemplateLookup" where
  "BugXv14_getTemplate c getTemplateStats errorType =
     (case andThen (getTemplate c errorType)
             (\<lambda>template. andThen (recordTemplateUsage c errorType True)
                (\<lambda>u. Inr template)) of
        Inr template \<Rightarrow> TemplateFound template getTemplateStats
      | Inl error \<Rightarrow> TemplateMissing (errorMessage error) (map fst getTemplateStats))"

section \<open>Integration system: team knowledge feedback\<close>

text \<open>
  \<open>recordTeamKnowledgeFeedback\<close> updates the first entry of that id (\<open>Array.find\<close>) in
  place and does nothing when there is none. An absent or empty comment is not stored.
\<close>

definition applyFeedback :: "bool \<Rightarrow> string option \<Rightarrow> TeamKnowledgeEntry \<Rightarrow> TeamKnowledgeEntry" where
  "applyFeedback helpful comment entry =
     (let fb = tk_teamFeedback entry;
          entry1 =
            (if helpful then
               entry\<lparr>tk_teamFeedback := fb\<lparr>fb_helpful := fb_helpful fb + 1\<rparr>,
                     tk_effectiveness := min 100 (tk_effectiveness entry + 2)\<rparr>
             else
               entry\<lparr>tk_teamFeedback := fb\<lparr>fb_notHelpful := fb_notHelpful fb + 1\<rparr>,
                     tk_effectiveness := max 0 (tk_effectiveness entry - 5)\<rparr>)
      in case comment of
           None \<Rightarrow> entry1
         | Some text \<Rightarrow>
             if text = [] then entry1
             else entry1\<lparr>tk_teamFeedback :=
                    (tk_teamFeedback entry1)\<lparr>fb_comments :=
                       fb_comments (tk_teamFeedback entry1) @ [text]\<rparr>\<rparr>)"

fun recordTeamKnowledgeFeedback ::
  "string \<Rightarrow> bool \<Rightarrow> string option \<Rightarrow> TeamKnowledgeEntry list \<Rightarrow> TeamKnowledgeEntry list" where
  "recordTeamKnowledgeFeedback entryId helpful comment [] = []"
| "recordTeamKnowledgeFeedback entryId helpful comment (e # es) =
     (if tk_id e = entryId then applyFeedback helpful comment e # es
      else e # recordTeamKnowledgeFeedback entryId helpful comment es)"

text \<open>
  The two methods that write \<open>teamKnowledge\<close>, as calls, and a sequence of calls run
  from a given list.
\<close>

datatype TeamCall =
  Share string int string string string string string
| Feedback string bool "string option"

fun teamCall :: "TeamKnowledgeEntry list \<Rightarrow> TeamCall \<Rightarrow> TeamKnowledgeEntry list" where
  "teamCall tk (Share newId now title errorSignature solution prevention sharedBy) =
     shareWithTeam newId now title errorSignature solution prevention sharedBy tk"
| "teamCall tk (Feedback entryId helpful comment) =
     recordTeamKnowledgeFeedback entryId helpful comment tk"

definition teamCalls :: "TeamCall list \<Rightarrow> TeamKnowledgeEntry list \<Rightarrow> TeamKnowledgeEntry list" where
  "teamCalls calls tk = foldl teamCall tk calls"

definition inRange :: "TeamKnowledgeEntry \<Rightarrow> bool" where
  "inRange e = (0 \<le> tk_effectiveness e \<and> tk_effectiveness e \<le> 100)"

section \<open>Behavioral parity tests\<close>

record ParityTestResult =
  testId :: string
  passed :: bool
  serverOutput :: string
  clientOutput :: string
  mismatchDetails :: "string list option"
  recommendation :: string

text \<open>
  \<open>testRandomValueConsistency\<close> draws two random numbers; the draws of \<open>Math.random()\<close>
  and the rendering of a number in a template literal are inputs of the model.
\<close>

definition generateValue :: "rat \<Rightarrow> rat" where
  \<comment> \<open>\<open>Math.floor(Math.random() * 150) + 50\<close>\<close>
  "generateValue random = of_int \<lfloor>random * 150\<rfloor> + 50"

definition testRandomValueConsistency :: "(rat \<Rightarrow> string) \<Rightarrow> rat \<Rightarrow> rat \<Rightarrow> ParityTestResult" where
  "testRandomValueConsistency render random1 random2 =
     (let serverValue = generateValue random1;
          clientValue = generateValue random2;
          passed = False
      in \<lparr>testId = ''RANDOM_VALUE_CONSISTENCY_001'',
          passed = passed,
          serverOutput = ''Active Users: '' @ render serverValue,
          clientOutput = ''Active Users: '' @ render clientValue,
          mismatchDetails = Some [''Random values generate different results on server vs client''],
          recommendation = ''Use static initial values with client-side state management''\<rparr>)"

section \<open>Database queries: \<open>getUser\<close>\<close>

text \<open>
  A row of the \<open>users\<close> table, the payload of a verified session token, and what
  \<open>getUser\<close> reads from outside: the outcome of \<open>ensureDatabaseInitialized\<close>, the cookie
  store, \<open>verifyToken\<close>, the clock and the table. Each call may throw (a rejected promise
  under \<open>await\<close>). A date that does not parse is \<open>None\<close>: JavaScript then compares with
  \<open>NaN\<close>, and the comparison is false.
\<close>

record User =
  u_id :: int
  u_name :: "string option"
  u_email :: string
  u_passwordHash :: string
  u_createdAt :: int
  u_updatedAt :: int
  u_deletedAt :: "int option"

datatype JsValue = JsNumber rat | JsString string | JsUndefined

record SessionUser =
  su_id :: JsValue

record SessionData =
  sd_user :: "SessionUser option"
  sd_expires :: "int option"

record QueryEnv =
  q_ensureDatabaseInitialized :: "exn + unit"
  q_cookies :: "exn + (string \<Rightarrow> string option)"
  q_verifyToken :: "string \<Rightarrow> exn + SessionData option"
  q_now :: int
  q_users :: "exn + User list"

text \<open>
  The query \<open>select from users where id = ? and deleted_at is null limit 1\<close>, over the
  rows of the table.
\<close>

definition selectUser :: "rat \<Rightarrow> User list \<Rightarrow> User list" where
  "selectUser uid rows =
     take 1 (filter (\<lambda>u. of_int (u_id u) = uid \<and> u_deletedAt u = None) rows)"

definition sessionUserId :: "SessionData \<Rightarrow> rat option" where
  \<comment> \<open>\<open>sessionData.user\<close> is set and \<open>typeof sessionData.user.id === 'number'\<close>\<close>
  "sessionUserId sd =
     (case sd_user sd of
        None \<Rightarrow> None
      | Some user \<Rightarrow>
          (case su_id user of
             JsNumber n \<Rightarrow> Some n
           | JsString v \<Rightarrow> None
           | JsUndefined \<Rightarrow> None))"

definition expired :: "SessionData \<Rightarrow> int \<Rightarrow> bool" where
  \<comment> \<open>\<open>new Date(sessionData.expires) < new Date()\<close>\<close>
  "expired sd now = (case sd_expires sd of None \<Rightarrow> False | Some t \<Rightarrow> t < now)"

text \<open>
  \<open>getUser\<close>: \<open>Inl\<close> is an exception that reaches the caller, \<open>Inr None\<close> is \<open>null\<close>.
  The two \<open>try\<close> blocks cover \<open>ensureDatabaseInitialized\<close> and the query; \<open>cookies()\<close> and
  \<open>verifyToken\<close> are called outside them.
\<close>

definition getUser :: "QueryEnv \<Rightarrow> exn + User option" where
  "getUser env =
     (case q_ensureDatabaseInitialized env of
        Inl error \<Rightarrow> Inr None
      | Inr u \<Rightarrow>
          andThen (q_cookies env)
            (\<lambda>cookieStore.
               case cookieStore ''session'' of
                 None \<Rightarrow> Inr None
               | Some cookieValue \<Rightarrow>
                   if cookieValue = [] then Inr None
                   else
                     andThen (q_verifyToken env cookieValue)
                       (\<lambda>sessionData.
                          case sessionData of
                            None \<Rightarrow> Inr None
                          | Some sd \<Rightarrow>
                              (case sessionUserId sd of
                                 None \<Rightarrow> Inr None
                               | Some uid \<Rightarrow>
                                   if expired sd (q_now env) then Inr None
                                   else
                                     (case q_users env of
                                        Inl error \<Rightarrow> Inr None
                                      | Inr rows \<Rightarrow>
                                          (case selectUser uid rows of
                                             [] \<Rightarrow> Inr None
                                           | user # rest \<Rightarrow> Inr (Some user)))))))"

section \<open>Database initialization: the single-flight guard\<close>

text \<open>
  \<open>ensureDatabaseInitialized\<close> runs on JavaScript's event loop: a call runs without
  interruption up to its first \<open>await\<close>, and the attempt it may have started goes on when
  \<open>initializeDatabase\<close> or \<open>seedDatabase\<close> settles. The module state is \<open>isInitialized\<close>
  and \<open>initializationPromise\<close>; a promise is the number of the attempt it belongs to.
  The model keeps, beside them, the status of every attempt started so far, the callers
  suspended on an attempt, and the calls that have returned or thrown.

  \<open>initializeDatabase\<close> and \<open>seedDatabase\<close> are asynchronous: they fail by rejecting the
  promise they return.
\<close>

datatype AttemptStatus = Initializing | Seeding | Resolved | Rejected exn

record InitState =
  isInitialized :: bool
  initializationPromise :: "nat option"
  attempts :: "AttemptStatus list"
  waiting :: "(string \<times> nat) list"
  returned :: "(string \<times> (exn + unit)) list"

datatype InitEvent =
  Call string
| InitializeDone nat
| InitializeFailed nat exn
| SeedDone nat
| SeedFailed nat exn

definition initialState :: InitState where
  "initialState =
     \<lparr>isInitialized = False, initializationPromise = None, attempts = [], waiting = [],
      returned = []\<rparr>"

definition statusOf :: "InitState \<Rightarrow> nat \<Rightarrow> AttemptStatus option" where
  "statusOf s k = (if k < length (attempts s) then Some (attempts s ! k) else None)"

definition pending :: "InitState \<Rightarrow> nat \<Rightarrow> bool" where
  "pending s k = (statusOf s k = Some Initializing \<or> statusOf s k = Some Seeding)"

text \<open>
  A settled attempt resumes the callers suspended on it, each with the attempt's outcome.
\<close>

definition settle :: "nat \<Rightarrow> exn + unit \<Rightarrow> InitState \<Rightarrow> InitState" where
  "settle k outcome s =
     s\<lparr>waiting := filter (\<lambda>w. snd w \<noteq> k) (waiting s),
       returned := returned s @ map (\<lambda>w. (fst w, outcome)) (filter (\<lambda>w. snd w = k) (waiting s))\<rparr>"

text \<open>The \<open>catch\<close> block of the attempt: it resets the promise and throws again.\<close>

definition attemptFailed :: "nat \<Rightarrow> exn \<Rightarrow> InitState \<Rightarrow> InitState" where
  "attemptFailed k error s =
     settle k (Inl error)
       (s\<lparr>initializationPromise := None, attempts := (attempts s)[k := Rejected error]\<rparr>)"

text \<open>
  A call of \<open>ensureDatabaseInitialized\<close>, up to its first \<open>await\<close>. It returns at once
  when \<open>isInitialized\<close> holds; it awaits the promise when there is one (a promise that is
  already settled hands its outcome over); otherwise it starts an attempt, which calls
  \<open>initializeDatabase\<close>, stores the attempt's promise and awaits it.
\<close>

definition ensureDatabaseInitialized :: "string \<Rightarrow> InitState \<Rightarrow> InitState" where
  "ensureDatabaseInitialized caller s =
     (if isInitialized s then s\<lparr>returned := returned s @ [(caller, Inr ())]\<rparr>
      else
        (case initializationPromise s of
           Some k \<Rightarrow>
             (case statusOf s k of
                Some Initializing \<Rightarrow> s\<lparr>waiting := waiting s @ [(caller, k)]\<rparr>
              | Some Seeding \<Rightarrow> s\<lparr>waiting := waiting s @ [(caller, k)]\<rparr>
              | Some Resolved \<Rightarrow> s\<lparr>returned := returned s @ [(caller, Inr ())]\<rparr>
              | Some (Rejected error) \<Rightarrow> s\<lparr>returned := returned s @ [(caller, Inl error)]\<rparr>
              | None \<Rightarrow> s)
         | None \<Rightarrow>
             s\<lparr>initializationPromise := Some (length (attempts s)),
               attempts := attempts s @ [Initializing],
               waiting := waiting s @ [(caller, length (attempts s))]\<rparr>))"

text \<open>
  One step of the module: a call, or the continuation of the attempt after one of its
  two awaits. After \<open>initializeDatabase\<close> the attempt calls \<open>seedDatabase\<close>; after
  \<open>seedDatabase\<close> it sets \<open>isInitialized\<close>; when either fails its handler runs. An event
  of an attempt that is not in the matching status cannot happen and leaves the state as
  it is.
\<close>

fun initStep :: "InitState \<Rightarrow> InitEvent \<Rightarrow> InitState" where
  "initStep s (Call caller) = ensureDatabaseInitialized caller s"
| "initStep s (InitializeDone k) =
     (if statusOf s k = Some Initializing
      then s\<lparr>attempts := (attempts s)[k := Seeding]\<rparr> else s)"
| "initStep s (InitializeFailed k error) =
     (if statusOf s k = Some Initializing then attemptFailed k error s else s)"
| "initStep s (SeedDone k) =
     (if statusOf s k = Some Seeding
      then settle k (Inr ()) (s\<lparr>isInitialized := True, attempts := (attempts s)[k := Resolved]\<rparr>)
      else s)"
| "initStep s (SeedFailed k error) =
     (if statusOf s k = Some Seeding then attemptFailed k error s else s)"

definition runEvents :: "InitEvent list \<Rightarrow> InitState \<Rightarrow> InitState" where
  "runEvents events s = foldl initStep s events"

text \<open>The number of times \<open>initializeDatabase\<close> has been called is the number of attempts.\<close>

definition initializationRuns :: "InitState \<Rightarrow> nat" where
  "initializationRuns s = length (attempts s)"

text \<open>
  The invariant of the guard: an attempt that has not settled is the one the promise
  stands for, and \<open>isInitialized\<close> is not set while it runs.
\<close>

definition guardInvariant :: "InitState \<Rightarrow> bool" where
  "guardInvariant s = (\<forall>k. pending s k \<longrightarrow> initializationPromise s = Some k \<and> \<not> isInitialized s)"

section \<open>Pattern recognition engine\<close>

text \<open>
  Modelled from the spec: the pattern recognition engine (\<open>pattern-recognition\<close>) is not
  among the sources. The specification gives the contract of \<open>analyzeError\<close>: it matches
  the message, the stack trace, the code context and the file name against the catalog
  of signatures; the confidence of a signature is the sum of its weighted keyword hits
  (in message, stack trace and code context) and context-clue hits, normalized to 0-100;
  the matches are returned highest confidence first, ties in catalog order; no match
  gives the empty list. The two weights and the catalog are parameters. A context clue
  is a named test on the code context and the file name. Normalizing divides by the
  highest sum the signature can reach.
\<close>

record PatternLibrary =
  catalog :: "PatternSignature list"
  keywordWeight :: nat
  clueWeight :: nat

definition matchedKeywords :: "PatternSignature \<Rightarrow> string \<Rightarrow> string list" where
  "matchedKeywords sg searched = filter (\<lambda>k. str_includes searched k) (sig_keywords sg)"

definition matchedClues :: "PatternSignature \<Rightarrow> string \<Rightarrow> string list" where
  "matchedClues sg context = map fst (filter (\<lambda>clue. snd clue context) (sig_contextClues sg))"

definition normalize :: "nat \<Rightarrow> nat \<Rightarrow> rat" where
  "normalize hits highest = (if highest = 0 then 0 else 100 * of_nat hits / of_nat highest)"

definition matchSignature ::
  "PatternLibrary \<Rightarrow> string \<Rightarrow> string \<Rightarrow> PatternSignature \<Rightarrow> PatternMatch option" where
  "matchSignature lib searched context sg =
     (let kws = matchedKeywords sg searched;
          clues = matchedClues sg context;
          hits = keywordWeight lib * length kws + clueWeight lib * length clues;
          highest = keywordWeight lib * length (sig_keywords sg)
                    + clueWeight lib * length (sig_contextClues sg)
      in if hits = 0 then None
         else Some \<lparr>pm_signature = sg, pm_confidence = normalize hits highest,
                    pm_matchedKeywords = kws, pm_matchedClues = clues,
                    pm_recommendation = sig_recommendation sg\<rparr>)"

definition PatternRecognitionEngine_analyzeError ::
  "PatternLibrary \<Rightarrow> string \<Rightarrow> string \<Rightarrow> string \<Rightarrow> string \<Rightarrow> PatternMatch list" where
  "PatternRecognitionEngine_analyzeError lib message stackTrace codeContext fileName =
     sort_key (\<lambda>m. - pm_confidence m)
       (List.map_filter
          (matchSignature lib (message @ '' '' @ stackTrace @ '' '' @ codeContext)
             (codeContext @ '' '' @ fileName))
          (catalog lib))"

section \<open>Example inputs\<close>

text \<open>
  Concrete inputs on which the theorems below are exercised. The error is the one of the
  source's quick-start example. The collaborators answer with fixed values; the template
  lookup goes through the registry given.
\<close>

definition exampleError :: ErrorDetails where
  "exampleError =
     \<lparr>ed_message = ''Hydration failed because the server rendered text'',
      ed_stackTrace = ''at Component (/app/page.tsx:15:3)'',
      ed_codeContext = ''const value = Math.random();'',
      ed_fileName = ''/app/page.tsx'',
      ed_component = ''HomePage''\<rparr>"

definition exampleSignature :: PatternSignature where
  "exampleSignature =
     \<lparr>sig_id = ''hydration-mismatch'', sig_name = ''Hydration Mismatch'',
      sig_category = ''hydration'', sig_keywords = [''Hydration'', ''server rendered''],
      sig_contextClues = [(''random'', \<lambda>context. str_includes context ''Math.random'')],
      sig_recommendation = ''Render the same value on server and client''\<rparr>"

definition exampleMatch :: PatternMatch where
  "exampleMatch =
     \<lparr>pm_signature = exampleSignature, pm_confidence = 90,
      pm_matchedKeywords = [''Hydration''], pm_matchedClues = [''random''],
      pm_recommendation = ''Render the same value on server and client''\<rparr>"

definition criticalPattern :: AntiPattern where
  "criticalPattern =
     \<lparr>ap_name = ''random-in-state'', ap_severity = Critical,
      ap_impact = ''Server and client render different values'',
      ap_solution = ''Use a static initial value''\<rparr>"

definition exampleAnalysis :: ContextAnalysisResult where
  "exampleAnalysis =
     \<lparr>ca_complexity = ''simple'', ca_estimatedTime = 3,
      ca_recommendedApproach = ''pattern_template'', ca_errorCategory = ''hydration''\<rparr>"

definition exampleLocals :: TryLocals where
  "exampleLocals =
     \<lparr>v_patternMatches = [exampleMatch], v_antiPatterns = [criticalPattern],
      v_contextAnalysis = exampleAnalysis, v_errorType = ''hydration_error'',
      v_appliedTemplate = None,
      v_implementationSteps = [''Move the random value into an effect''],
      v_preventionMeasures = [''Lint for Math.random in render'']\<rparr>"

definition exampleCollaborators :: "(string \<rightharpoonup> PatternTemplate) \<Rightarrow> Collaborators" where
  "exampleCollaborators registry =
     \<lparr>analyzeError = (\<lambda>message stackTrace codeContext fileName. Inr [exampleMatch]),
      detectAntiPatterns = (\<lambda>codeContext fileName. Inr [criticalPattern]),
      analyzeContext = (\<lambda>input. Inr exampleAnalysis),
      getTemplate = BugXCoreSystem_getTemplate registry,
      recordTemplateUsage = (\<lambda>errorType success. Inr ()),
      generateWorkflowPrompts = (\<lambda>context. Inr [''analysis'', ''fix'']),
      generateImplementation =
        (\<lambda>request. Inr \<lparr>impl_steps = [''Move the random value into an effect''],
                         impl_preventionMeasures = [''Lint for Math.random in render'']\<rparr>),
      numberToString = (\<lambda>n. ''n'')\<rparr>"

definition failingCollaborators :: Collaborators where
  "failingCollaborators =
     (exampleCollaborators Map.empty)
       \<lparr>analyzeContext := (\<lambda>input. Inl (Failure ''context analysis failed''))\<rparr>"

definition exampleInputs :: RunInputs where
  "exampleInputs =
     \<lparr>in_startTime = 1000, in_sessionTime = 1000, in_endTime = 61000,
      in_metricsSessionId = ''bugx-1'', in_teamEntryId = ''team-1000-abc'', in_sharedAt = 60000\<rparr>"

text \<open>
  The integration system as the module initializes it (\<open>config = DEFAULT_CONFIG\<close>,
  \<open>teamKnowledge = []\<close>), and after \<open>configure({ metricsEnabled: false })\<close>.
\<close>

definition initialSystem :: SystemState where
  "initialSystem =
     \<lparr>st_config = DEFAULT_CONFIG, st_teamKnowledge = [],
      st_metrics = \<lparr>sessions = [], documentationLog = []\<rparr>, st_notifications = []\<rparr>"

definition configure :: "ConfigOptions \<Rightarrow> SystemState \<Rightarrow> SystemState" where
  "configure newConfig st = st\<lparr>st_config := mergeConfig (st_config st) newConfig\<rparr>"

definition metricsOff :: SystemState where
  "metricsOff = configure (noOptions\<lparr>opt_metricsEnabled := Some False\<rparr>) initialSystem"

definition exampleCalls :: "TeamCall list" where
  "exampleCalls =
     [Share ''team-1'' 0 ''hydration_error Resolution'' ''sig'' ''fix'' ''prevent'' ''dev'',
      Feedback ''team-1'' True None, Feedback ''team-1'' True None, Feedback ''team-1'' True None,
      Feedback ''team-1'' True None, Feedback ''team-1'' True None, Feedback ''team-1'' True None,
      Feedback ''team-1'' True None, Feedback ''team-1'' True (Some ''good''),
      Share ''team-2'' 1 ''scope_error Resolution'' ''sig2'' ''fix2'' ''prevent2'' ''dev'',
      Feedback ''team-2'' False None, Feedback ''team-0'' False None]"

definition exampleUser :: User where
  "exampleUser =
     \<lparr>u_id = 7, u_name = Some ''Test User'', u_email = ''test@test.com'',
      u_passwordHash = ''hash'', u_createdAt = 0, u_updatedAt = 0, u_deletedAt = None\<rparr>"

definition exampleQueryEnv :: QueryEnv where
  "exampleQueryEnv =
     \<lparr>q_ensureDatabaseInitialized = Inr (),
      q_cookies = Inr (\<lambda>name. if name = ''session'' then Some ''token'' else None),
      q_verifyToken =
        (\<lambda>token. Inr (Some \<lparr>sd_user = Some \<lparr>su_id = JsNumber 7\<rparr>, sd_expires = Some 5000\<rparr>)),
      q_now = 1000,
      q_users = Inr [exampleUser\<lparr>u_id := 3\<rparr>, exampleUser\<lparr>u_deletedAt := Some 10\<rparr>, exampleUser]\<rparr>"

definition exampleEvents :: "InitEvent list" where
  "exampleEvents =
     [Call ''a'', Call ''b'', InitializeFailed 0 (Failure ''database unreachable''),
      Call ''c'', InitializeDone 1, Call ''d'', SeedDone 1, Call ''e'']"

definition exampleLibrary :: PatternLibrary where
  "exampleLibrary =
     \<lparr>catalog =
        [exampleSignature\<lparr>sig_id := ''scope'', sig_name := ''Temporal Dead Zone'',
           sig_keywords := [''Hydration'', ''before initialization''],
           sig_contextClues := []\<rparr>,
         exampleSignature],
      keywordWeight = 2, clueWeight = 1\<rparr>"

chapter \<open>Properties\<close>

section \<open>Properties of the quality score and of the parity test\<close>

lemma Math_round_mono: "x \<le> y \<Longrightarrow> Math_round x \<le> Math_round y"
  by (simp add: Math_round_def floor_mono)

lemma capped_round_mono: "x \<le> y \<Longrightarrow> min 100 (Math_round x) \<le> min 100 (Math_round y)"
  by (rule min.mono[OF order_refl Math_round_mono])

lemma calculateQualityScore_le_100: "calculateQualityScore f \<le> 100"
  by (simp add: calculateQualityScore_def Let_def)

lemma calculateQualityScore_mono:
  assumes "n \<le> n'"
  shows "calculateQualityScore (f\<lparr>qf_preventionMeasures := n\<rparr>)
         \<le> calculateQualityScore (f\<lparr>qf_preventionMeasures := n'\<rparr>)"
proof -
  have A: "min 20 (n * 5) \<le> min 20 (n' * 5)"
    using assms by (simp add: min_le_iff_disj)
  show ?thesis
    unfolding calculateQualityScore_def Let_def
    by (rule capped_round_mono) (use A in simp)
qed



text \<open>
  C5. With the applied-template flag, the confidence and the complexity held fixed, the
  quality score does not decrease when the prevention-measure count grows, and for every
  input it is at most 100. The same holds for the score the orchestrator computes in
  phase 6 from the list of prevention measures.
\<close>
theorem quality_score_monotone_capped:
  assumes "n \<le> n'" and "length prevention \<le> length prevention'"
  shows "calculateQualityScore (f\<lparr>qf_preventionMeasures := n\<rparr>)
           \<le> calculateQualityScore (f\<lparr>qf_preventionMeasures := n'\<rparr>)
         \<and> calculateQualityScore f \<le> 100
         \<and> phase6_qualityValidation template prevention matches context
           \<le> phase6_qualityValidation template prevention' matches context
         \<and> phase6_qualityValidation template prevention matches context \<le> 100"
proof -
  let ?g = "\<lparr>qf_appliedTemplate = (template \<noteq> None), qf_preventionMeasures = 0,
             qf_patternMatchConfidence = firstConfidence matches 0,
             qf_contextComplexity = ca_complexity context\<rparr>"
  have "(of_nat (length prevention) :: rat) \<le> of_nat (length prevention')"
    using assms(2) by simp
  from calculateQualityScore_mono[OF this, of ?g]
  have "phase6_qualityValidation template prevention matches context
        \<le> phase6_qualityValidation template prevention' matches context"
    by (simp add: phase6_qualityValidation_def)
  moreover have "phase6_qualityValidation template prevention matches context \<le> 100"
    by (simp add: phase6_qualityValidation_def calculateQualityScore_le_100)
  ultimately show ?thesis
    using calculateQualityScore_mono[OF assms(1)] calculateQualityScore_le_100 by simp
qed

text \<open>
  One to three prevention measures, with a template, a confidence of 90 and a simple
  context: the score goes from 99 to the cap of 100.
\<close>
theorem quality_score_monotone_capped_witness:
  "calculateQualityScore
     \<lparr>qf_appliedTemplate = True, qf_preventionMeasures = 1, qf_patternMatchConfidence = 90,
      qf_contextComplexity = ''simple''\<rparr> = 99
   \<and> calculateQualityScore
     \<lparr>qf_appliedTemplate = True, qf_preventionMeasures = 3, qf_patternMatchConfidence = 90,
      qf_contextComplexity = ''simple''\<rparr> = 100
   \<and> calculateQualityScore
        \<lparr>qf_appliedTemplate = True, qf_preventionMeasures = 1, qf_patternMatchConfidence = 90,
         qf_contextComplexity = ''simple''\<rparr>
      \<le> calculateQualityScore
        \<lparr>qf_appliedTemplate = True, qf_preventionMeasures = 3, qf_patternMatchConfidence = 90,
         qf_contextComplexity = ''simple''\<rparr>"
  using quality_score_monotone_capped[of 1 3 "[''a'']" "[''a'', ''b'']"
      "\<lparr>qf_appliedTemplate = True, qf_preventionMeasures = 0, qf_patternMatchConfidence = 90,
        qf_contextComplexity = ''simple''\<rparr>"]
  by (simp add: calculateQualityScore_def Let_def Math_round_def)

text \<open>
  C9. Whatever the two random draws are, \<open>testRandomValueConsistency\<close> returns a result
  with \<open>passed\<close> false and the recommendation to use static initial values with
  client-side state management.
\<close>
theorem random_value_consistency_always_fails:
  "passed (testRandomValueConsistency render random1 random2) = False
   \<and> recommendation (testRandomValueConsistency render random1 random2)
       = ''Use static initial values with client-side state management''
   \<and> str_includes (recommendation (testRandomValueConsistency render random1 random2))
       ''static initial values''"
  by (simp add: testRandomValueConsistency_def Let_def)

section \<open>Properties of the team knowledge base\<close>

lemma applyFeedback_effectiveness:
  "tk_effectiveness (applyFeedback helpful comment e)
   = (if helpful then min 100 (tk_effectiveness e + 2) else max 0 (tk_effectiveness e - 5))"
  by (simp add: applyFeedback_def Let_def split: option.splits)

lemma applyFeedback_inRange: "inRange e \<Longrightarrow> inRange (applyFeedback helpful comment e)"
  by (simp add: inRange_def applyFeedback_effectiveness)

lemma recordTeamKnowledgeFeedback_inRange:
  "list_all inRange tk \<Longrightarrow> list_all inRange (recordTeamKnowledgeFeedback entryId helpful comment tk)"
  by (induction tk) (simp_all add: applyFeedback_inRange)

lemma shareWithTeam_inRange:
  "list_all inRange tk \<Longrightarrow>
   list_all inRange (shareWithTeam newId now title errorSignature solution prevention sharedBy tk)"
  by (simp add: shareWithTeam_def inRange_def)

lemma teamCall_inRange: "list_all inRange tk \<Longrightarrow> list_all inRange (teamCall tk call)"
  by (cases call) (simp_all add: recordTeamKnowledgeFeedback_inRange shareWithTeam_inRange)

lemma teamCalls_inRange: "list_all inRange tk \<Longrightarrow> list_all inRange (teamCalls calls tk)"
  unfolding teamCalls_def
  by (induction calls arbitrary: tk) (simp_all add: teamCall_inRange)

text \<open>
  C6. After any sequence of \<open>shareWithTeam\<close> and \<open>recordTeamKnowledgeFeedback\<close> calls
  on the empty knowledge base, and after any such sequence on a knowledge base whose
  scores are within 0 and 100, the effectiveness of every entry is within 0 and 100. An
  entry starts at 85 when shared; helpful feedback adds 2 and caps at 100; unhelpful
  feedback subtracts 5 and floors at 0.
\<close>
theorem effectiveness_stays_in_range:
  "list_all inRange (teamCalls calls [])
   \<and> (list_all inRange tk \<longrightarrow> list_all inRange (teamCalls calls tk))
   \<and> tk_effectiveness
        (last (shareWithTeam newId now title errorSignature solution prevention sharedBy tk)) = 85
   \<and> tk_effectiveness (applyFeedback True comment e) = min 100 (tk_effectiveness e + 2)
   \<and> tk_effectiveness (applyFeedback False comment e) = max 0 (tk_effectiveness e - 5)"
  using teamCalls_inRange[of "[]" calls] teamCalls_inRange[of tk calls]
  by (simp add: applyFeedback_effectiveness shareWithTeam_def)

text \<open>
  Eight helpful votes take the first entry from 85 to the cap of 100; one unhelpful vote
  takes the second to 80; feedback on an unknown id changes nothing.
\<close>
theorem effectiveness_stays_in_range_witness:
  "map tk_effectiveness (teamCalls exampleCalls []) = [100, 80]
   \<and> list_all inRange (teamCalls exampleCalls [])"
  using effectiveness_stays_in_range[of exampleCalls "[]"]
  by (simp add: exampleCalls_def teamCalls_def shareWithTeam_def applyFeedback_def Let_def)

section \<open>Properties of the single-flight guard\<close>

lemma settle_fields [simp]:
  "isInitialized (settle k outcome s) = isInitialized s"
  "initializationPromise (settle k outcome s) = initializationPromise s"
  "attempts (settle k outcome s) = attempts s"
  by (simp_all add: settle_def)

lemma attemptFailed_fields [simp]:
  "isInitialized (attemptFailed k error s) = isInitialized s"
  "initializationPromise (attemptFailed k error s) = None"
  "attempts (attemptFailed k error s) = (attempts s)[k := Rejected error]"
  by (simp_all add: attemptFailed_def)

lemma guardInvariant_initialState: "guardInvariant initialState"
  by (simp add: guardInvariant_def pending_def statusOf_def initialState_def)

lemma pending_attempts: "attempts s' = attempts s \<Longrightarrow> pending s' j = pending s j"
  by (simp add: pending_def statusOf_def)

lemma pending_unique: "guardInvariant s \<Longrightarrow> pending s k \<Longrightarrow> pending s j \<Longrightarrow> j = k"
  by (metis guardInvariant_def option.inject)

lemma pending_list_update:
  "attempts s' = (attempts s)[k := v] \<Longrightarrow>
   pending s' j = (if j = k then k < length (attempts s) \<and> (v = Initializing \<or> v = Seeding)
                   else pending s j)"
  by (auto simp: pending_def statusOf_def)

lemma pending_append:
  "attempts s' = attempts s @ [v] \<Longrightarrow>
   pending s' j = (if j = length (attempts s) then v = Initializing \<or> v = Seeding else pending s j)"
  by (auto simp: pending_def statusOf_def nth_append)

lemma guardInvariant_call:
  assumes "guardInvariant s"
  shows "guardInvariant (ensureDatabaseInitialized caller s)"
proof (cases "isInitialized s")
  case True
  then have "\<And>j. \<not> pending s j"
    using assms by (auto simp: guardInvariant_def)
  moreover have "pending (s\<lparr>returned := r\<rparr>) j = pending s j" for r j
    by (intro pending_attempts) simp
  ultimately show ?thesis
    using True by (simp add: ensureDatabaseInitialized_def guardInvariant_def)
next
  case False
  show ?thesis
  proof (cases "initializationPromise s")
    case None
    with assms have none: "\<And>j. \<not> pending s j"
      by (auto simp: guardInvariant_def)
    let ?s' = "s\<lparr>initializationPromise := Some (length (attempts s)),
                 attempts := attempts s @ [Initializing],
                 waiting := waiting s @ [(caller, length (attempts s))]\<rparr>"
    have eq: "ensureDatabaseInitialized caller s = ?s'"
      using False None by (simp add: ensureDatabaseInitialized_def)
    have "pending ?s' j = (j = length (attempts s))" for j
      using pending_append[of ?s' s Initializing j] none by simp
    then show ?thesis
      unfolding eq guardInvariant_def using False by simp
  next
    case (Some k)
    let ?s' = "ensureDatabaseInitialized caller s"
    have same: "attempts ?s' = attempts s \<and> initializationPromise ?s' = initializationPromise s
                \<and> isInitialized ?s' = isInitialized s"
      using False Some
      by (simp add: ensureDatabaseInitialized_def split: option.splits AttemptStatus.splits)
    then have "pending ?s' j = pending s j" for j
      by (intro pending_attempts) simp
    then show ?thesis
      using assms same by (simp add: guardInvariant_def)
  qed
qed

lemma guardInvariant_progress:
  assumes "guardInvariant s" and "statusOf s k = Some Initializing"
  shows "guardInvariant (s\<lparr>attempts := (attempts s)[k := Seeding]\<rparr>)"
proof -
  let ?s' = "s\<lparr>attempts := (attempts s)[k := Seeding]\<rparr>"
  from assms(2) have pk: "pending s k" and lt: "k < length (attempts s)"
    by (auto simp: pending_def statusOf_def split: if_splits)
  have "pending ?s' j = pending s j" for j
    using pending_list_update[of ?s' s k Seeding j] pk lt by simp
  then show ?thesis
    using assms(1) by (simp add: guardInvariant_def)
qed

lemma guardInvariant_settled:
  assumes "guardInvariant s" and "pending s k" and "attempts s' = (attempts s)[k := v]"
      and "v \<noteq> Initializing" and "v \<noteq> Seeding"
  shows "guardInvariant s'"
proof -
  have "\<not> pending s' j" for j
    using pending_list_update[OF assms(3), of j] pending_unique[OF assms(1,2), of j] assms(4,5)
    by auto
  then show ?thesis
    by (simp add: guardInvariant_def)
qed

lemma guardInvariant_step:
  assumes "guardInvariant s"
  shows "guardInvariant (initStep s ev)"
proof (cases ev)
  case (Call caller)
  then show ?thesis using assms by (simp add: guardInvariant_call)
next
  case (InitializeDone k)
  then show ?thesis using assms by (simp add: guardInvariant_progress)
next
  case (InitializeFailed k error)
  show ?thesis
  proof (cases "statusOf s k = Some Initializing")
    case True
    then have "pending s k" by (simp add: pending_def)
    from guardInvariant_settled[OF assms this, of "attemptFailed k error s" "Rejected error"]
    show ?thesis using InitializeFailed True by simp
  next
    case False
    then show ?thesis using InitializeFailed assms by simp
  qed
next
  case (SeedDone k)
  show ?thesis
  proof (cases "statusOf s k = Some Seeding")
    case True
    then have "pending s k" by (simp add: pending_def)
    from guardInvariant_settled[OF assms this,
        of "settle k (Inr ()) (s\<lparr>isInitialized := True, attempts := (attempts s)[k := Resolved]\<rparr>)"
           Resolved]
    show ?thesis using SeedDone True by simp
  next
    case False
    then show ?thesis using SeedDone assms by simp
  qed
next
  case (SeedFailed k error)
  show ?thesis
  proof (cases "statusOf s k = Some Seeding")
    case True
    then have "pending s k" by (simp add: pending_def)
    from guardInvariant_settled[OF assms this, of "attemptFailed k error s" "Rejected error"]
    show ?thesis using SeedFailed True by simp
  next
    case False
    then show ?thesis using SeedFailed assms by simp
  qed
qed

lemma guardInvariant_runEvents: "guardInvariant s \<Longrightarrow> guardInvariant (runEvents events s)"
  unfolding runEvents_def
  by (induction events arbitrary: s) (simp_all add: guardInvariant_step)

lemma guardInvariant_reachable: "guardInvariant (runEvents events initialState)"
  by (simp add: guardInvariant_runEvents guardInvariant_initialState)

lemma statusOf_attempts: "attempts s' = attempts s \<Longrightarrow> statusOf s' k = statusOf s k"
  by (simp add: statusOf_def)

lemma statusOf_append:
  "attempts s' = attempts s @ [v] \<Longrightarrow>
   statusOf s' k = (if k = length (attempts s) then Some v else statusOf s k)"
  by (auto simp: statusOf_def nth_append)

lemma call_fields:
  "isInitialized (ensureDatabaseInitialized caller s) = isInitialized s"
  "attempts (ensureDatabaseInitialized caller s) =
     (if \<not> isInitialized s \<and> initializationPromise s = None
      then attempts s @ [Initializing] else attempts s)"
  by (simp_all add: ensureDatabaseInitialized_def split: option.splits AttemptStatus.splits)

lemma resolved_step:
  assumes "\<forall>k. statusOf s k = Some Resolved \<longrightarrow> isInitialized s"
  shows "\<forall>k. statusOf (initStep s ev) k = Some Resolved \<longrightarrow> isInitialized (initStep s ev)"
proof (cases ev)
  case (Call caller)
  let ?s' = "ensureDatabaseInitialized caller s"
  show ?thesis
  proof (cases "\<not> isInitialized s \<and> initializationPromise s = None")
    case True
    then have "attempts ?s' = attempts s @ [Initializing]"
      by (simp add: call_fields)
    from statusOf_append[OF this]
    have "statusOf ?s' k = Some Resolved \<longrightarrow> statusOf s k = Some Resolved" for k
      by simp
    then show ?thesis
      using assms Call by (auto simp: call_fields)
  next
    case False
    then have "attempts ?s' = attempts s"
      by (auto simp: call_fields)
    from statusOf_attempts[OF this]
    show ?thesis
      using assms Call by (simp add: call_fields(1))
  qed
next
  case (InitializeDone k)
  then show ?thesis using assms
    by (auto simp: statusOf_def nth_list_update split: if_splits)
next
  case (InitializeFailed k error)
  then show ?thesis using assms
    by (auto simp: statusOf_def nth_list_update split: if_splits)
next
  case (SeedDone k)
  then show ?thesis using assms
    by (auto simp: statusOf_def nth_list_update split: if_splits)
next
  case (SeedFailed k error)
  then show ?thesis using assms
    by (auto simp: statusOf_def nth_list_update split: if_splits)
qed

lemma resolved_runEvents:
  "\<forall>k. statusOf s k = Some Resolved \<longrightarrow> isInitialized s \<Longrightarrow>
   \<forall>k. statusOf (runEvents events s) k = Some Resolved \<longrightarrow> isInitialized (runEvents events s)"
  unfolding runEvents_def
proof (induction events arbitrary: s)
  case Nil
  then show ?case by simp
next
  case (Cons ev events)
  from Cons.IH[OF resolved_step[OF Cons.prems, of ev]]
  show ?case by simp
qed

lemma resolved_reachable:
  "statusOf (runEvents events initialState) k = Some Resolved \<Longrightarrow>
   isInitialized (runEvents events initialState)"
proof -
  have "\<forall>k. statusOf initialState k = Some Resolved \<longrightarrow> isInitialized initialState"
    by (simp add: initialState_def statusOf_def)
  from resolved_runEvents[OF this, of events] show
    "statusOf (runEvents events initialState) k = Some Resolved \<Longrightarrow>
     isInitialized (runEvents events initialState)"
    by blast
qed

lemma initialized_step:
  "isInitialized s \<Longrightarrow>
   isInitialized (initStep s ev) \<and> initializationRuns (initStep s ev) = initializationRuns s"
  by (cases ev) (simp_all add: ensureDatabaseInitialized_def initializationRuns_def)

lemma initialized_runEvents:
  "isInitialized s \<Longrightarrow>
   isInitialized (runEvents events s) \<and> initializationRuns (runEvents events s) = initializationRuns s"
  unfolding runEvents_def
proof (induction events arbitrary: s)
  case Nil
  then show ?case by simp
next
  case (Cons ev events)
  from initialized_step[OF Cons.prems, of ev] Cons.IH[of "initStep s ev"]
  show ?case by simp
qed

lemma call_when_initialized:
  "isInitialized s \<Longrightarrow>
   ensureDatabaseInitialized caller s = s\<lparr>returned := returned s @ [(caller, Inr ())]\<rparr>"
  by (simp add: ensureDatabaseInitialized_def)

lemma call_while_pending:
  assumes "guardInvariant s" and "pending s k"
  shows "ensureDatabaseInitialized caller s = s\<lparr>waiting := waiting s @ [(caller, k)]\<rparr>"
proof -
  from assms have "initializationPromise s = Some k" and "\<not> isInitialized s"
    by (auto simp: guardInvariant_def)
  with assms(2) show ?thesis
    by (auto simp: ensureDatabaseInitialized_def pending_def)
qed

lemma call_after_failure:
  assumes "\<not> isInitialized s" and "initializationPromise s = None"
  shows "initializationRuns (ensureDatabaseInitialized caller s) = initializationRuns s + 1
         \<and> initializationPromise (ensureDatabaseInitialized caller s) = Some (length (attempts s))
         \<and> statusOf (ensureDatabaseInitialized caller s) (length (attempts s)) = Some Initializing"
  using assms
  by (simp add: ensureDatabaseInitialized_def initializationRuns_def statusOf_def)

lemma pending_not_initialized: "guardInvariant s \<Longrightarrow> pending s k \<Longrightarrow> \<not> isInitialized s"
  by (simp add: guardInvariant_def)

lemma fresh_attempt_after_failure:
  assumes "guardInvariant s" and "pending s k"
  shows "initializationPromise (attemptFailed k error s) = None
         \<and> \<not> isInitialized (attemptFailed k error s)
         \<and> initializationRuns (ensureDatabaseInitialized caller (attemptFailed k error s))
             = initializationRuns s + 1
         \<and> initializationPromise (ensureDatabaseInitialized caller (attemptFailed k error s))
             = Some (length (attempts s))
         \<and> pending (ensureDatabaseInitialized caller (attemptFailed k error s)) (length (attempts s))"
proof -
  let ?s' = "attemptFailed k error s"
  have ni: "\<not> isInitialized ?s'"
    using pending_not_initialized[OF assms] by simp
  have none: "initializationPromise ?s' = None"
    by simp
  have len: "length (attempts ?s') = length (attempts s)"
    by simp
  have runs: "initializationRuns ?s' = initializationRuns s"
    by (simp add: initializationRuns_def)
  from call_after_failure[OF ni none, of caller]
  show ?thesis
    unfolding len runs pending_def using ni none by blast
qed

text \<open>
  C3. In every state the module reaches from its initial state, by any sequence of calls
  and of settlements of \<open>initializeDatabase\<close> and \<open>seedDatabase\<close>:
  \<^item> once an attempt has succeeded, \<open>isInitialized\<close> holds; then a call returns at once,
    and no later sequence of events starts another attempt;
  \<^item> while an attempt is in progress, it is the attempt of the stored promise, and a
    call suspends on that attempt and starts none;
  \<^item> when the attempt in progress fails, the promise is reset and \<open>isInitialized\<close> is
    not set, so that the next call starts a fresh attempt and stores its promise.
\<close>
theorem single_flight_guard:
  assumes "s = runEvents events initialState"
  shows "(statusOf s j = Some Resolved \<longrightarrow> isInitialized s)
         \<and> (isInitialized s \<longrightarrow>
            ensureDatabaseInitialized caller s = s\<lparr>returned := returned s @ [(caller, Inr ())]\<rparr>
            \<and> isInitialized (runEvents later s)
            \<and> initializationRuns (runEvents later s) = initializationRuns s)
         \<and> (pending s k \<longrightarrow>
              initializationPromise s = Some k
              \<and> ensureDatabaseInitialized caller s = s\<lparr>waiting := waiting s @ [(caller, k)]\<rparr>
              \<and> initializationRuns (ensureDatabaseInitialized caller s) = initializationRuns s)
         \<and> ((statusOf s k = Some Initializing \<and> failed = initStep s (InitializeFailed k error))
              \<or> (statusOf s k = Some Seeding \<and> failed = initStep s (SeedFailed k error)) \<longrightarrow>
              initializationPromise failed = None
              \<and> \<not> isInitialized failed
              \<and> initializationRuns (ensureDatabaseInitialized caller failed)
                  = initializationRuns s + 1
              \<and> initializationPromise (ensureDatabaseInitialized caller failed)
                  = Some (length (attempts s))
              \<and> pending (ensureDatabaseInitialized caller failed) (length (attempts s)))"
proof -
  have inv: "guardInvariant s"
    unfolding assms by (rule guardInvariant_reachable)
  have first: "isInitialized s \<longrightarrow>
            ensureDatabaseInitialized caller s = s\<lparr>returned := returned s @ [(caller, Inr ())]\<rparr>
            \<and> isInitialized (runEvents later s)
            \<and> initializationRuns (runEvents later s) = initializationRuns s"
    using call_when_initialized[of s caller] initialized_runEvents[of s later] by blast
  have second: "pending s k \<longrightarrow>
              initializationPromise s = Some k
              \<and> ensureDatabaseInitialized caller s = s\<lparr>waiting := waiting s @ [(caller, k)]\<rparr>
              \<and> initializationRuns (ensureDatabaseInitialized caller s) = initializationRuns s"
  proof
    assume p: "pending s k"
    from call_while_pending[OF inv p, of caller]
    show "initializationPromise s = Some k
          \<and> ensureDatabaseInitialized caller s = s\<lparr>waiting := waiting s @ [(caller, k)]\<rparr>
          \<and> initializationRuns (ensureDatabaseInitialized caller s) = initializationRuns s"
      using inv p by (simp add: guardInvariant_def initializationRuns_def)
  qed
  have third: "(statusOf s k = Some Initializing \<and> failed = initStep s (InitializeFailed k error))
              \<or> (statusOf s k = Some Seeding \<and> failed = initStep s (SeedFailed k error)) \<longrightarrow>
              initializationPromise failed = None
              \<and> \<not> isInitialized failed
              \<and> initializationRuns (ensureDatabaseInitialized caller failed)
                  = initializationRuns s + 1
              \<and> initializationPromise (ensureDatabaseInitialized caller failed)
                  = Some (length (attempts s))
              \<and> pending (ensureDatabaseInitialized caller failed) (length (attempts s))"
  proof
    assume a: "(statusOf s k = Some Initializing \<and> failed = initStep s (InitializeFailed k error))
              \<or> (statusOf s k = Some Seeding \<and> failed = initStep s (SeedFailed k error))"
    then have p: "pending s k" and f: "failed = attemptFailed k error s"
      by (auto simp: pending_def)
    from fresh_attempt_after_failure[OF inv p, of error caller]
    show "initializationPromise failed = None
              \<and> \<not> isInitialized failed
              \<and> initializationRuns (ensureDatabaseInitialized caller failed)
                  = initializationRuns s + 1
              \<and> initializationPromise (ensureDatabaseInitialized caller failed)
                  = Some (length (attempts s))
              \<and> pending (ensureDatabaseInitialized caller failed) (length (attempts s))"
      unfolding f by blast
  qed
  have zeroth: "statusOf s j = Some Resolved \<longrightarrow> isInitialized s"
    unfolding assms using resolved_reachable by blast
  from zeroth first second third show ?thesis
    by blast
qed

lemmas init_eval =
  runEvents_def ensureDatabaseInitialized_def statusOf_def settle_def attemptFailed_def
  initialState_def

lemma example_after_call:
  "runEvents [Call ''a''] initialState =
     \<lparr>isInitialized = False, initializationPromise = Some 0, attempts = [Initializing],
      waiting = [(''a'', 0)], returned = []\<rparr>"
  by (simp add: init_eval)

lemma example_final:
  "runEvents exampleEvents initialState =
     \<lparr>isInitialized = True, initializationPromise = Some 1,
      attempts = [Rejected (Failure ''database unreachable''), Resolved],
      waiting = [],
      returned = [(''a'', Inl (Failure ''database unreachable'')),
                  (''b'', Inl (Failure ''database unreachable'')),
                  (''c'', Inr ()), (''d'', Inr ()), (''e'', Inr ())]\<rparr>"
  by (simp add: init_eval exampleEvents_def)


text \<open>
  Two callers share the first attempt; it fails; the third call starts the second
  attempt, which succeeds; later calls return at once.
\<close>
theorem single_flight_guard_witness:
  "isInitialized (runEvents exampleEvents initialState)
   \<and> initializationRuns (runEvents exampleEvents initialState) = 2
   \<and> initializationRuns (runEvents [Call ''f'', Call ''g''] (runEvents exampleEvents initialState)) = 2
   \<and> pending (runEvents [Call ''a''] initialState) 0
   \<and> waiting (ensureDatabaseInitialized ''b'' (runEvents [Call ''a''] initialState))
       = [(''a'', 0), (''b'', 0)]
   \<and> initializationRuns (ensureDatabaseInitialized ''b'' (runEvents [Call ''a''] initialState)) = 1
   \<and> initializationPromise
        (initStep (runEvents [Call ''a''] initialState) (InitializeFailed 0 (Failure ''down'')))
       = None
   \<and> initializationRuns
        (ensureDatabaseInitialized ''c''
           (initStep (runEvents [Call ''a''] initialState) (InitializeFailed 0 (Failure ''down''))))
       = 2"
proof -
  let ?s1 = "runEvents [Call ''a''] initialState"
  let ?s2 = "runEvents exampleEvents initialState"
  let ?failed = "initStep ?s1 (InitializeFailed 0 (Failure ''down''))"
  have p: "pending ?s1 0" and st: "statusOf ?s1 0 = Some Initializing"
      and runs1: "initializationRuns ?s1 = 1" and w1: "waiting ?s1 = [(''a'', 0)]"
    by (simp_all add: example_after_call pending_def statusOf_def initializationRuns_def)
  have i: "isInitialized ?s2" and runs2: "initializationRuns ?s2 = 2"
    by (simp_all add: example_final initializationRuns_def)
  from single_flight_guard[OF refl, where events = exampleEvents
      and later = "[Call ''f'', Call ''g'']"] i
  have a: "initializationRuns (runEvents [Call ''f'', Call ''g''] ?s2) = initializationRuns ?s2"
    by blast
  from single_flight_guard[OF refl, where events = "[Call ''a'']" and k = 0
      and caller = "''b''"] p
  have b: "ensureDatabaseInitialized ''b'' ?s1 = ?s1\<lparr>waiting := waiting ?s1 @ [(''b'', 0)]\<rparr>"
      and b': "initializationRuns (ensureDatabaseInitialized ''b'' ?s1) = initializationRuns ?s1"
    by blast+
  from single_flight_guard[OF refl, where events = "[Call ''a'']" and k = 0
      and caller = "''c''" and error = "Failure ''down''" and failed = ?failed] st
  have c: "initializationPromise ?failed = None"
      and c': "initializationRuns (ensureDatabaseInitialized ''c'' ?failed)
               = initializationRuns ?s1 + 1"
    by blast+
  have "waiting (ensureDatabaseInitialized ''b'' ?s1) = [(''a'', 0), (''b'', 0)]"
    unfolding b by (simp add: w1)
  then show ?thesis
    using p i runs2 a b' c c' runs1 by simp
qed

section \<open>Properties of \<open>getUser\<close>\<close>

lemma selectUser_cases:
  "selectUser uid rows = [] \<or> (\<exists>user. selectUser uid rows = [user])"
  by (cases "filter (\<lambda>u. of_int (u_id u) = uid \<and> u_deletedAt u = None) rows")
     (simp_all add: selectUser_def)

lemma selectUser_empty:
  "(selectUser uid rows = []) = (\<not> list_ex (\<lambda>u. of_int (u_id u) = uid \<and> u_deletedAt u = None) rows)"
  by (simp add: selectUser_def list_ex_iff filter_empty_conv)

lemma selectUser_found:
  assumes "selectUser uid rows = user # rest"
  shows "user \<in> set rows \<and> of_int (u_id user) = uid \<and> u_deletedAt user = None"
proof -
  let ?P = "\<lambda>u. of_int (u_id u) = uid \<and> u_deletedAt u = None"
  from assms obtain others where "filter ?P rows = user # others"
    by (cases "filter ?P rows") (simp_all add: selectUser_def)
  then have "user \<in> set (filter ?P rows)"
    by simp
  then show ?thesis
    by simp
qed

lemma getUser_init_failed: "q_ensureDatabaseInitialized env = Inl error \<Longrightarrow> getUser env = Inr None"
  by (simp add: getUser_def)

lemma getUser_no_cookie:
  assumes "q_ensureDatabaseInitialized env = Inr u" and "q_cookies env = Inr cookieStore"
      and "cookieStore ''session'' = None \<or> cookieStore ''session'' = Some []"
  shows "getUser env = Inr None"
  using assms by (auto simp: getUser_def andThen_def)

lemma getUser_verified:
  assumes "q_ensureDatabaseInitialized env = Inr u" and "q_cookies env = Inr cookieStore"
      and "cookieStore ''session'' = Some v" and "v \<noteq> []"
      and "q_verifyToken env v = Inr token"
  shows "getUser env =
           (case token of
              None \<Rightarrow> Inr None
            | Some sd \<Rightarrow>
                (case sessionUserId sd of
                   None \<Rightarrow> Inr None
                 | Some uid \<Rightarrow>
                     if expired sd (q_now env) then Inr None
                     else (case q_users env of
                             Inl error \<Rightarrow> Inr None
                           | Inr rows \<Rightarrow>
                               (case selectUser uid rows of
                                  [] \<Rightarrow> Inr None
                                | user # rest \<Rightarrow> Inr (Some user)))))"
  using assms by (simp add: getUser_def andThen_def)

lemma getUser_throws_iff:
  "(getUser env = Inl e) =
     ((\<exists>u. q_ensureDatabaseInitialized env = Inr u) \<and>
      (q_cookies env = Inl e \<or>
       (\<exists>cookieStore v. q_cookies env = Inr cookieStore \<and> cookieStore ''session'' = Some v
          \<and> v \<noteq> [] \<and> q_verifyToken env v = Inl e)))"
  by (auto simp: getUser_def andThen_def split: sum.splits option.splits list.splits)

lemma getUser_some_only_if:
  assumes "getUser env = Inr (Some user)"
  shows "\<exists>u cookieStore v sd uid rows.
           q_ensureDatabaseInitialized env = Inr u \<and> q_cookies env = Inr cookieStore
           \<and> cookieStore ''session'' = Some v \<and> v \<noteq> []
           \<and> q_verifyToken env v = Inr (Some sd) \<and> sessionUserId sd = Some uid
           \<and> \<not> expired sd (q_now env) \<and> q_users env = Inr rows
           \<and> user \<in> set rows \<and> of_int (u_id user) = uid \<and> u_deletedAt user = None"
  using assms
  by (auto simp: getUser_def andThen_def dest: selectUser_found
      split: sum.splits option.splits list.splits if_splits)

text \<open>
  C10, as the code has it. \<open>getUser\<close> returns \<open>null\<close> when database initialization
  fails. When initialization succeeds and \<open>cookies()\<close> returns, it returns \<open>null\<close> when
  the session cookie is absent or empty; when \<open>verifyToken\<close> then returns, it returns
  \<open>null\<close> when the token does not verify, when it lacks a numeric user id, when the
  session has expired, when the query fails, and when no row of that id is left that is
  not soft-deleted; otherwise it returns the first such row. It returns a row only when
  all these checks pass. An exception reaches the caller exactly when initialization
  succeeds and \<open>cookies()\<close> throws, or the cookie is set and \<open>verifyToken\<close> throws: these
  two calls are outside the \<open>try\<close> blocks.
\<close>
theorem getUser_null_unless_all_checks_pass:
  "(q_ensureDatabaseInitialized env = Inl error \<longrightarrow> getUser env = Inr None)
   \<and> (q_ensureDatabaseInitialized env = Inr u \<and> q_cookies env = Inr cookieStore \<longrightarrow>
        ((cookieStore ''session'' = None \<or> cookieStore ''session'' = Some []) \<longrightarrow>
           getUser env = Inr None)
        \<and> (cookieStore ''session'' = Some v \<and> v \<noteq> [] \<and> q_verifyToken env v = Inr token \<longrightarrow>
             (token = None \<longrightarrow> getUser env = Inr None)
             \<and> (token = Some sd \<longrightarrow>
                  (sessionUserId sd = None \<longrightarrow> getUser env = Inr None)
                  \<and> (expired sd (q_now env) \<longrightarrow> getUser env = Inr None)
                  \<and> (sessionUserId sd = Some uid \<and> \<not> expired sd (q_now env) \<longrightarrow>
                       (q_users env = Inl error \<longrightarrow> getUser env = Inr None)
                       \<and> (q_users env = Inr rows \<longrightarrow>
                            (\<not> list_ex (\<lambda>r. of_int (u_id r) = uid \<and> u_deletedAt r = None) rows
                               \<longrightarrow> getUser env = Inr None)
                            \<and> getUser env =
                                Inr (case selectUser uid rows of [] \<Rightarrow> None
                                     | user # rest \<Rightarrow> Some user))))))
   \<and> (getUser env = Inr (Some found) \<longrightarrow>
        (\<exists>u cookieStore v sd uid rows.
           q_ensureDatabaseInitialized env = Inr u \<and> q_cookies env = Inr cookieStore
           \<and> cookieStore ''session'' = Some v \<and> v \<noteq> []
           \<and> q_verifyToken env v = Inr (Some sd) \<and> sessionUserId sd = Some uid
           \<and> \<not> expired sd (q_now env) \<and> q_users env = Inr rows
           \<and> found \<in> set rows \<and> of_int (u_id found) = uid \<and> u_deletedAt found = None))
   \<and> ((getUser env = Inl e) =
        ((\<exists>u. q_ensureDatabaseInitialized env = Inr u) \<and>
         (q_cookies env = Inl e \<or>
          (\<exists>cookieStore v. q_cookies env = Inr cookieStore \<and> cookieStore ''session'' = Some v
             \<and> v \<noteq> [] \<and> q_verifyToken env v = Inl e))))"
proof (intro conjI impI)
  show "getUser env = Inr None" if "q_ensureDatabaseInitialized env = Inl error"
    using that by (rule getUser_init_failed)
next
  assume ok: "q_ensureDatabaseInitialized env = Inr u \<and> q_cookies env = Inr cookieStore"
  show "getUser env = Inr None"
    if "cookieStore ''session'' = None \<or> cookieStore ''session'' = Some []"
    using ok that getUser_no_cookie by blast
  assume tok: "cookieStore ''session'' = Some v \<and> v \<noteq> [] \<and> q_verifyToken env v = Inr token"
  note eq = getUser_verified[of env u cookieStore v token]
  show "getUser env = Inr None" if "token = None"
    using eq ok tok that by simp
  assume sd: "token = Some sd"
  show "getUser env = Inr None" if "sessionUserId sd = None"
    using eq ok tok sd that by simp
  show "getUser env = Inr None" if "expired sd (q_now env)"
    using eq ok tok sd that by (simp split: option.splits)
  assume uid: "sessionUserId sd = Some uid \<and> \<not> expired sd (q_now env)"
  show "getUser env = Inr None" if "q_users env = Inl error"
    using eq ok tok sd uid that by simp
  assume rows: "q_users env = Inr rows"
  show "getUser env = Inr None"
    if "\<not> list_ex (\<lambda>r. of_int (u_id r) = uid \<and> u_deletedAt r = None) rows"
    using eq ok tok sd uid rows that selectUser_empty[of uid rows] by simp
  show "getUser env = Inr (case selectUser uid rows of [] \<Rightarrow> None | user # rest \<Rightarrow> Some user)"
    using eq ok tok sd uid rows by (simp split: list.splits)
next
  assume "getUser env = Inr (Some found)"
  then show "\<exists>u cookieStore v sd uid rows.
           q_ensureDatabaseInitialized env = Inr u \<and> q_cookies env = Inr cookieStore
           \<and> cookieStore ''session'' = Some v \<and> v \<noteq> []
           \<and> q_verifyToken env v = Inr (Some sd) \<and> sessionUserId sd = Some uid
           \<and> \<not> expired sd (q_now env) \<and> q_users env = Inr rows
           \<and> found \<in> set rows \<and> of_int (u_id found) = uid \<and> u_deletedAt found = None"
    by (rule getUser_some_only_if)
next
  show "(getUser env = Inl e) =
        ((\<exists>u. q_ensureDatabaseInitialized env = Inr u) \<and>
         (q_cookies env = Inl e \<or>
          (\<exists>cookieStore v. q_cookies env = Inr cookieStore \<and> cookieStore ''session'' = Some v
             \<and> v \<noteq> [] \<and> q_verifyToken env v = Inl e)))"
    by (rule getUser_throws_iff)
qed


lemma example_selectUser:
  "selectUser 7 [exampleUser\<lparr>u_id := 3\<rparr>, exampleUser\<lparr>u_deletedAt := Some 10\<rparr>, exampleUser]
   = [exampleUser]"
  by (simp add: selectUser_def exampleUser_def)

text \<open>
  A valid session finds its user; a failed initialization, an expired session and a
  failed query give \<open>null\<close>; an exception of \<open>cookies()\<close> reaches the caller.
\<close>
theorem getUser_null_unless_all_checks_pass_witness:
  "getUser exampleQueryEnv = Inr (Some exampleUser)
   \<and> u_deletedAt exampleUser = None
   \<and> getUser (exampleQueryEnv\<lparr>q_ensureDatabaseInitialized := Inl (Failure ''no database'')\<rparr>)
       = Inr None
   \<and> getUser (exampleQueryEnv\<lparr>q_now := 9000\<rparr>) = Inr None
   \<and> getUser (exampleQueryEnv\<lparr>q_users := Inl (Failure ''connection lost'')\<rparr>) = Inr None
   \<and> getUser (exampleQueryEnv\<lparr>q_cookies := Inl (Failure ''no request scope'')\<rparr>)
       = Inl (Failure ''no request scope'')"
proof -
  let ?sd = "\<lparr>sd_user = Some \<lparr>su_id = JsNumber 7\<rparr>, sd_expires = Some 5000\<rparr>"
  let ?store = "\<lambda>name. if name = ''session'' then Some ''token'' else None"
  let ?rows = "[exampleUser\<lparr>u_id := 3\<rparr>, exampleUser\<lparr>u_deletedAt := Some 10\<rparr>, exampleUser]"
  have env: "q_ensureDatabaseInitialized exampleQueryEnv = Inr ()"
      "q_cookies exampleQueryEnv = Inr ?store"
      "q_verifyToken exampleQueryEnv ''token'' = Inr (Some ?sd)"
      "q_now exampleQueryEnv = 1000"
      "q_users exampleQueryEnv = Inr ?rows"
    by (simp_all add: exampleQueryEnv_def)
  have sd: "sessionUserId ?sd = Some 7" "\<not> expired ?sd 1000" "expired ?sd 9000"
    by (simp_all add: sessionUserId_def expired_def)
  from getUser_null_unless_all_checks_pass[where env = exampleQueryEnv and u = "()"
      and cookieStore = ?store and v = "''token''" and token = "Some ?sd" and sd = ?sd
      and uid = 7 and rows = ?rows and found = exampleUser]
  have a: "getUser exampleQueryEnv = Inr (Some exampleUser)"
    and a': "u_deletedAt exampleUser = None"
    using env sd example_selectUser by simp_all
  from getUser_null_unless_all_checks_pass[where
      env = "exampleQueryEnv\<lparr>q_ensureDatabaseInitialized := Inl (Failure ''no database'')\<rparr>"
      and error = "Failure ''no database''"]
  have b: "getUser (exampleQueryEnv\<lparr>q_ensureDatabaseInitialized := Inl (Failure ''no database'')\<rparr>)
           = Inr None"
    by simp
  from getUser_null_unless_all_checks_pass[where env = "exampleQueryEnv\<lparr>q_now := 9000\<rparr>"
      and u = "()" and cookieStore = ?store and v = "''token''" and token = "Some ?sd"
      and sd = ?sd]
  have c: "getUser (exampleQueryEnv\<lparr>q_now := 9000\<rparr>) = Inr None"
    using env sd by simp
  from getUser_null_unless_all_checks_pass[where
      env = "exampleQueryEnv\<lparr>q_users := Inl (Failure ''connection lost'')\<rparr>"
      and u = "()" and cookieStore = ?store and v = "''token''" and token = "Some ?sd"
      and sd = ?sd and uid = 7 and error = "Failure ''connection lost''"]
  have d: "getUser (exampleQueryEnv\<lparr>q_users := Inl (Failure ''connection lost'')\<rparr>) = Inr None"
    using env sd by simp
  from getUser_null_unless_all_checks_pass[where
      env = "exampleQueryEnv\<lparr>q_cookies := Inl (Failure ''no request scope'')\<rparr>"
      and e = "Failure ''no request scope''"]
  have e: "getUser (exampleQueryEnv\<lparr>q_cookies := Inl (Failure ''no request scope'')\<rparr>)
           = Inl (Failure ''no request scope'')"
    using env by simp
  from a a' b c d e show ?thesis
    by simp
qed

text \<open>
  C10 as stated says that \<open>getUser\<close> never throws. With the database initialized and a
  session cookie set, an exception of \<open>verifyToken\<close> reaches the caller.
\<close>
theorem getUser_throws_when_verifyToken_throws:
  "q_ensureDatabaseInitialized
     (exampleQueryEnv\<lparr>q_verifyToken := (\<lambda>token. Inl (Failure ''signature verification failed''))\<rparr>)
     = Inr ()
   \<and> getUser
       (exampleQueryEnv\<lparr>q_verifyToken := (\<lambda>token. Inl (Failure ''signature verification failed''))\<rparr>)
     = Inl (Failure ''signature verification failed'')"
  by (simp add: getUser_def andThen_def exampleQueryEnv_def)

section \<open>Properties of the workflow\<close>

lemma phase1_fields:
  "st_config (snd (phase1_initializeSession c inputs developer errorDetails st)) = st_config st"
  "st_teamKnowledge (snd (phase1_initializeSession c inputs developer errorDetails st))
     = st_teamKnowledge st"
  "st_notifications (snd (phase1_initializeSession c inputs developer errorDetails st))
     = st_notifications st"
  by (simp_all add: phase1_initializeSession_def startSession_def)

lemma phase1_metrics:
  "st_metrics (snd (phase1_initializeSession c inputs developer errorDetails st)) =
     (if cfg_metricsEnabled (st_config st)
      then snd (startSession (in_metricsSessionId inputs) developer (ed_message errorDetails)
                  (ed_component errorDetails) (st_metrics st))
      else st_metrics st)"
  by (simp add: phase1_initializeSession_def startSession_def)

lemma phase1_sid:
  "fst (phase1_initializeSession c inputs developer errorDetails st) =
     (if cfg_metricsEnabled (st_config st) then in_metricsSessionId inputs
      else ''session-'' @ numberToString c (of_int (in_sessionTime inputs)))"
  by (simp add: phase1_initializeSession_def startSession_def)

lemma run_cases:
  "runCompleteWorkflow c inputs developer errorDetails options st =
     (case phases2to5 c (mergeConfig (st_config st) options) errorDetails (st_teamKnowledge st) of
        Inl error \<Rightarrow>
          catchBlock inputs (in_startTime inputs)
            (fst (phase1_initializeSession c inputs developer errorDetails st)) error
            (snd (phase1_initializeSession c inputs developer errorDetails st))
      | Inr v \<Rightarrow>
          phases6to10 c inputs developer errorDetails (mergeConfig (st_config st) options)
            (in_startTime inputs)
            (fst (phase1_initializeSession c inputs developer errorDetails st)) v
            (snd (phase1_initializeSession c inputs developer errorDetails st)))"
  by (simp add: runCompleteWorkflow_def tryBlock_def andThen_def Let_def split_def phase1_fields
      split: sum.splits)

lemma phases2to5_throws_iff:
  "(phases2to5 c workflowConfig errorDetails tk = Inl e) =
     (phase2_patternRecognition c workflowConfig errorDetails = Inl e
      \<or> (\<exists>pms aps. phase2_patternRecognition c workflowConfig errorDetails = Inr (pms, aps)
            \<and> (phase3_contextAnalysis c errorDetails pms aps = Inl e
               \<or> (\<exists>ca. phase3_contextAnalysis c errorDetails pms aps = Inr ca
                     \<and> phase5_implementation c workflowConfig errorDetails
                          (inferErrorType (ed_message errorDetails) pms) ca pms
                          (phase4_templateMatching c
                             (inferErrorType (ed_message errorDetails) pms)) tk = Inl e))))"
  by (auto simp: phases2to5_def andThen_def Let_def split: sum.splits prod.splits)

lemma finalize_marks:
  "list_ex (\<lambda>s. s_id s = sid) ss \<Longrightarrow>
   list_ex (\<lambda>s. s_id s = sid \<and> s_outcome s = Some outcome) (finalize sid outcome ss)"
  by (induction ss) auto

lemma catchBlock_result:
  "fst (catchBlock inputs startTime sid error st) =
     \<lparr>res_sessionId = sid, res_success = False,
      res_timeSpent = Math_round (minutesBetween startTime (in_endTime inputs) * 100) / 100,
      res_approach = bugx_v14, res_patternMatches = [], res_antiPatterns = [],
      res_appliedTemplate = None, res_preventionMeasures = [],
      res_documentationCreated = False,
      res_metrics = \<lparr>m_efficiency = 0, m_qualityScore = 0, m_teamImpact = 0\<rparr>,
      res_recommendations =
        [''Retry with manual debugging approach'', ''Check system configuration''],
      res_nextSteps = [''Review error logs'', ''Validate input parameters'']\<rparr>"
  by (simp add: catchBlock_def Let_def)

lemma catchBlock_state:
  "st_teamKnowledge (snd (catchBlock inputs startTime sid error st)) = st_teamKnowledge st"
  "st_notifications (snd (catchBlock inputs startTime sid error st)) = st_notifications st"
  "st_config (snd (catchBlock inputs startTime sid error st)) = st_config st"
  "\<not> cfg_metricsEnabled (st_config st) \<Longrightarrow>
     st_metrics (snd (catchBlock inputs startTime sid error st)) = st_metrics st"
  by (simp_all add: catchBlock_def Let_def)

lemma catchBlock_marks:
  assumes "cfg_metricsEnabled (st_config st)" and "list_ex (\<lambda>s. s_id s = sid) (sessions (st_metrics st))"
  shows "sessionFailed sid (st_metrics (snd (catchBlock inputs startTime sid error st)))"
proof -
  let ?failed = "\<lparr>out_patternUsed = None, out_approach = bugx_v14, out_success = False,
                  out_preventionApplied = False, out_documentationCreated = False,
                  out_satisfactionRating = None,
                  out_notes = ''Workflow error: '' @ errorText error\<rparr>"
  from finalize_marks[OF assms(2), of ?failed]
  have "list_ex (\<lambda>s. s_id s = sid \<and> s_outcome s = Some ?failed)
          (sessions (st_metrics (snd (catchBlock inputs startTime sid error st))))"
    using assms(1) by (simp add: catchBlock_def Let_def completeSession_def)
  then show ?thesis
    unfolding sessionFailed_def list_ex_iff by auto
qed

text \<open>
  C2, as the code has it. \<open>runCompleteWorkflow\<close> returns a result for every input: the
  calls that can throw are those of phases 2, 3 and 5, inside the \<open>try\<close> block (phase 4
  handles what its calls throw and goes on), and phase 1 and the handler call the
  metrics collector only. When a phase throws, the result has \<open>success\<close> false,
  zero-valued metrics, the two default recommendations and the two default next steps.
  When \<open>metricsEnabled\<close> is set in the system configuration, the session opened in
  phase 1 is completed as failed; when it is not set, no session was opened and the
  collector's store is left as it is.
\<close>
theorem workflow_failure_is_caught:
  assumes "phases2to5 c (mergeConfig (st_config st) options) errorDetails (st_teamKnowledge st)
           = Inl error"
  shows "fst (runCompleteWorkflow c inputs developer errorDetails options st) =
           \<lparr>res_sessionId = fst (phase1_initializeSession c inputs developer errorDetails st),
            res_success = False,
            res_timeSpent =
              Math_round (minutesBetween (in_startTime inputs) (in_endTime inputs) * 100) / 100,
            res_approach = bugx_v14, res_patternMatches = [], res_antiPatterns = [],
            res_appliedTemplate = None, res_preventionMeasures = [],
            res_documentationCreated = False,
            res_metrics = \<lparr>m_efficiency = 0, m_qualityScore = 0, m_teamImpact = 0\<rparr>,
            res_recommendations =
              [''Retry with manual debugging approach'', ''Check system configuration''],
            res_nextSteps = [''Review error logs'', ''Validate input parameters'']\<rparr>
         \<and> (if cfg_metricsEnabled (st_config st)
            then sessionFailed (in_metricsSessionId inputs)
                   (st_metrics (snd (runCompleteWorkflow c inputs developer errorDetails options st)))
            else st_metrics (snd (runCompleteWorkflow c inputs developer errorDetails options st))
                 = st_metrics st)"
proof -
  let ?p1 = "phase1_initializeSession c inputs developer errorDetails st"
  have run: "runCompleteWorkflow c inputs developer errorDetails options st
             = catchBlock inputs (in_startTime inputs) (fst ?p1) error (snd ?p1)"
    using assms by (simp add: run_cases)
  have "sessionFailed (in_metricsSessionId inputs)
          (st_metrics (snd (catchBlock inputs (in_startTime inputs) (fst ?p1) error (snd ?p1))))"
    if on: "cfg_metricsEnabled (st_config st)"
  proof -
    have "list_ex (\<lambda>s. s_id s = in_metricsSessionId inputs) (sessions (st_metrics (snd ?p1)))"
      using on by (simp add: phase1_metrics startSession_def)
    moreover have "fst ?p1 = in_metricsSessionId inputs"
      using on by (simp add: phase1_sid)
    ultimately show ?thesis
      using catchBlock_marks[of "snd ?p1" "in_metricsSessionId inputs"] on
      by (simp add: phase1_fields)
  qed
  moreover have "st_metrics (snd (catchBlock inputs (in_startTime inputs) (fst ?p1) error (snd ?p1)))
                 = st_metrics st"
    if off: "\<not> cfg_metricsEnabled (st_config st)"
    using off by (simp add: catchBlock_state phase1_fields phase1_metrics)
  ultimately show ?thesis
    unfolding run by (simp add: catchBlock_result)
qed

lemma phase7_notifications:
  "st_notifications (snd (phase7_documentation c inputs workflowConfig developer errorDetails et
      ca tpl steps prevention pms aps st)) = st_notifications st"
  by (simp add: phase7_documentation_def Let_def)

lemma phase9_notifications:
  "st_notifications (phase9_completeSession c sid tpl approach prevention doc score pms aps st)
   = st_notifications st"
  by (simp add: phase9_completeSession_def)

lemma phase8_notifications:
  "st_notifications (phase8_teamNotification workflowConfig developer aps sid st) =
     (if notifyOnCritical (cfg_teamIntegration workflowConfig) \<and> hasCritical aps
      then st_notifications st @
             [\<lparr>tn_developer = developer, tn_sessionId = sid,
               tn_criticalPatterns = filter (\<lambda>ap. ap_severity ap = Critical) aps\<rparr>]
      else st_notifications st)"
  by (simp add: phase8_teamNotification_def notifyTeamOfCriticalIssues_def Let_def)

lemma phases6to10_notifications:
  "st_notifications (snd (phases6to10 c inputs developer errorDetails workflowConfig startTime sid v st)) =
     (if notifyOnCritical (cfg_teamIntegration workflowConfig) \<and> hasCritical (v_antiPatterns v)
      then st_notifications st @
             [\<lparr>tn_developer = developer, tn_sessionId = sid,
               tn_criticalPatterns = filter (\<lambda>ap. ap_severity ap = Critical) (v_antiPatterns v)\<rparr>]
      else st_notifications st)"
  by (simp add: phases6to10_def Let_def split_def phase9_notifications phase8_notifications
      phase7_notifications)

lemma phases6to10_result:
  "res_success (fst (phases6to10 c inputs developer errorDetails workflowConfig startTime sid v st))"
  "res_patternMatches (fst (phases6to10 c inputs developer errorDetails workflowConfig startTime sid v st))
     = v_patternMatches v"
  "res_antiPatterns (fst (phases6to10 c inputs developer errorDetails workflowConfig startTime sid v st))
     = v_antiPatterns v"
  "res_appliedTemplate (fst (phases6to10 c inputs developer errorDetails workflowConfig startTime sid v st))
     = v_appliedTemplate v"
  "res_preventionMeasures (fst (phases6to10 c inputs developer errorDetails workflowConfig startTime sid v st))
     = v_preventionMeasures v"
  "m_qualityScore (res_metrics (fst (phases6to10 c inputs developer errorDetails workflowConfig startTime sid v st)))
     = phase6_qualityValidation (v_appliedTemplate v) (v_preventionMeasures v)
         (v_patternMatches v) (v_contextAnalysis v)"
  by (simp_all add: phases6to10_def Let_def split_def)

text \<open>
  C7, as the code has it. In a run in which no phase throws, the team is notified if and
  only if the active configuration (the system configuration overridden by the options of
  the call) has \<open>teamIntegration.notifyOnCritical\<close> set and the detected anti-patterns
  contain one of severity critical; the notification names the developer, the session and
  the critical anti-patterns. The run returns \<open>success\<close> true whether or not the team is
  notified. In a run in which a phase throws, the team is not notified.
\<close>
theorem team_notification_when_critical:
  "(phases2to5 c (mergeConfig (st_config st) options) errorDetails (st_teamKnowledge st) = Inr v
    \<longrightarrow> res_success (fst (runCompleteWorkflow c inputs developer errorDetails options st))
        \<and> res_antiPatterns (fst (runCompleteWorkflow c inputs developer errorDetails options st))
            = v_antiPatterns v
        \<and> st_notifications (snd (runCompleteWorkflow c inputs developer errorDetails options st)) =
            (if notifyOnCritical (cfg_teamIntegration (mergeConfig (st_config st) options))
                \<and> hasCritical (v_antiPatterns v)
             then st_notifications st @
                    [\<lparr>tn_developer = developer,
                      tn_sessionId = fst (phase1_initializeSession c inputs developer errorDetails st),
                      tn_criticalPatterns =
                        filter (\<lambda>ap. ap_severity ap = Critical) (v_antiPatterns v)\<rparr>]
             else st_notifications st))
   \<and> (phases2to5 c (mergeConfig (st_config st) options) errorDetails (st_teamKnowledge st) = Inl error
      \<longrightarrow> st_notifications (snd (runCompleteWorkflow c inputs developer errorDetails options st))
          = st_notifications st)"
  by (simp add: run_cases phases6to10_notifications phases6to10_result phase1_fields
      catchBlock_state)

lemma phase4_not_found: "getTemplate c et = Inl e \<Longrightarrow> phase4_templateMatching c et = None"
  by (simp add: phase4_templateMatching_def)

lemma example_inferErrorType:
  "inferErrorType (ed_message exampleError) [exampleMatch] = ''hydration_error''"
  by (simp add: inferErrorType_def exampleError_def exampleMatch_def exampleSignature_def
      toLowerCase_def lowerChar_def Let_def)

lemma example_locals:
  assumes "cfg_patternRecognitionEnabled workflowConfig" and "cfg_aiAssisted workflowConfig"
  shows "phases2to5 (exampleCollaborators Map.empty) workflowConfig exampleError tk
         = Inr exampleLocals"
  using assms
  by (simp add: phases2to5_def andThen_def Let_def example_inferErrorType exampleLocals_def
      phase2_patternRecognition_def phase3_contextAnalysis_def phase4_templateMatching_def
      phase5_implementation_def exampleCollaborators_def BugXCoreSystem_getTemplate_def)

lemma failing_locals:
  "phases2to5 failingCollaborators workflowConfig exampleError tk
   = Inl (Failure ''context analysis failed'')"
  by (simp add: phases2to5_def andThen_def Let_def failingCollaborators_def
      phase2_patternRecognition_def phase3_contextAnalysis_def exampleCollaborators_def)

lemma initialSystem_config:
  "cfg_metricsEnabled (st_config initialSystem)"
  "cfg_patternRecognitionEnabled (mergeConfig (st_config initialSystem) noOptions)"
  "cfg_aiAssisted (mergeConfig (st_config initialSystem) noOptions)"
  "notifyOnCritical (cfg_teamIntegration (mergeConfig (st_config initialSystem) noOptions))"
  "st_notifications initialSystem = []"
  by (simp_all add: initialSystem_def DEFAULT_CONFIG_def mergeConfig_def noOptions_def orElse_def)

lemma metricsOff_config:
  "\<not> cfg_metricsEnabled (st_config metricsOff)"
  "st_metrics metricsOff = \<lparr>sessions = [], documentationLog = []\<rparr>"
  by (simp_all add: metricsOff_def configure_def initialSystem_def DEFAULT_CONFIG_def
      mergeConfig_def noOptions_def orElse_def)

text \<open>
  With the default configuration and a context analysis that throws, the run returns the
  failure result and the session \<open>bugx-1\<close> is completed as failed.
\<close>
theorem workflow_failure_is_caught_witness:
  "res_success (fst (runCompleteWorkflow failingCollaborators exampleInputs ''dev'' exampleError
      noOptions initialSystem)) = False
   \<and> res_metrics (fst (runCompleteWorkflow failingCollaborators exampleInputs ''dev'' exampleError
      noOptions initialSystem)) = \<lparr>m_efficiency = 0, m_qualityScore = 0, m_teamImpact = 0\<rparr>
   \<and> sessionFailed ''bugx-1''
       (st_metrics (snd (runCompleteWorkflow failingCollaborators exampleInputs ''dev''
          exampleError noOptions initialSystem)))"
  using workflow_failure_is_caught[OF failing_locals, where st = initialSystem
      and options = noOptions and inputs = exampleInputs and developer = "''dev''"]
  by (simp add: initialSystem_config exampleInputs_def)

text \<open>
  C2 as stated says that the metrics session is marked complete whenever a phase throws.
  After \<open>configure({ metricsEnabled: false })\<close> a run whose context analysis throws
  returns the failure result, and the collector holds no session at all.
\<close>
theorem metrics_disabled_no_session_completed:
  "res_success (fst (runCompleteWorkflow failingCollaborators exampleInputs ''dev'' exampleError
      noOptions metricsOff)) = False
   \<and> sessions (st_metrics (snd (runCompleteWorkflow failingCollaborators exampleInputs ''dev''
        exampleError noOptions metricsOff))) = []
   \<and> \<not> sessionFailed
         (res_sessionId (fst (runCompleteWorkflow failingCollaborators exampleInputs ''dev''
            exampleError noOptions metricsOff)))
         (st_metrics (snd (runCompleteWorkflow failingCollaborators exampleInputs ''dev''
            exampleError noOptions metricsOff)))"
  by (simp add: run_cases failing_locals catchBlock_result catchBlock_state phase1_fields
      phase1_metrics metricsOff_config sessionFailed_def)

text \<open>
  With the default configuration and a critical anti-pattern detected, a run in which no
  phase throws notifies the team once; a run whose context analysis throws does not.
\<close>
theorem team_notification_when_critical_witness:
  "res_success (fst (runCompleteWorkflow (exampleCollaborators Map.empty) exampleInputs ''dev''
      exampleError noOptions initialSystem))
   \<and> st_notifications (snd (runCompleteWorkflow (exampleCollaborators Map.empty) exampleInputs
        ''dev'' exampleError noOptions initialSystem))
     = [\<lparr>tn_developer = ''dev'', tn_sessionId = ''bugx-1'',
         tn_criticalPatterns = [criticalPattern]\<rparr>]
   \<and> st_notifications (snd (runCompleteWorkflow failingCollaborators exampleInputs
        ''dev'' exampleError noOptions initialSystem)) = []"
proof -
  have ok: "phases2to5 (exampleCollaborators Map.empty)
              (mergeConfig (st_config initialSystem) noOptions) exampleError
              (st_teamKnowledge initialSystem) = Inr exampleLocals"
    by (simp add: example_locals initialSystem_config)
  have critical: "hasCritical (v_antiPatterns exampleLocals)"
      "filter (\<lambda>ap. ap_severity ap = Critical) (v_antiPatterns exampleLocals) = [criticalPattern]"
    by (simp_all add: exampleLocals_def hasCritical_def criticalPattern_def)
  from team_notification_when_critical[where c = "exampleCollaborators Map.empty"
      and st = initialSystem and options = noOptions and errorDetails = exampleError
      and inputs = exampleInputs and developer = "''dev''" and v = exampleLocals]
    team_notification_when_critical[where c = failingCollaborators
      and st = initialSystem and options = noOptions and errorDetails = exampleError
      and inputs = exampleInputs and developer = "''dev''"
      and error = "Failure ''context analysis failed''"]
  show ?thesis
    by (simp add: ok critical failing_locals initialSystem_config phase1_sid exampleInputs_def)
qed

text \<open>
  C7 as stated speaks of every run. With \<open>notifyOnCritical\<close> set and a critical
  anti-pattern detected in phase 2, a run whose context analysis throws in phase 3 makes no
  notification.
\<close>
theorem failed_run_skips_notification:
  "notifyOnCritical (cfg_teamIntegration (mergeConfig (st_config initialSystem) noOptions))
   \<and> phase2_patternRecognition failingCollaborators
        (mergeConfig (st_config initialSystem) noOptions) exampleError
      = Inr ([exampleMatch], [criticalPattern])
   \<and> hasCritical [criticalPattern]
   \<and> st_notifications (snd (runCompleteWorkflow failingCollaborators exampleInputs ''dev''
        exampleError noOptions initialSystem)) = []"
proof -
  have "st_notifications (snd (runCompleteWorkflow failingCollaborators exampleInputs ''dev''
        exampleError noOptions initialSystem)) = []"
    by (simp add: run_cases failing_locals catchBlock_state phase1_fields initialSystem_config)
  moreover have "phase2_patternRecognition failingCollaborators
        (mergeConfig (st_config initialSystem) noOptions) exampleError
      = Inr ([exampleMatch], [criticalPattern])"
    by (simp add: initialSystem_config phase2_patternRecognition_def failingCollaborators_def
        exampleCollaborators_def andThen_def)
  moreover have "hasCritical [criticalPattern]"
    by (simp add: hasCritical_def criticalPattern_def)
  ultimately show ?thesis
    by (simp add: initialSystem_config)
qed

lemma BugXv14_getTemplate_not_found:
  "getTemplate c et = Inl e \<Longrightarrow>
   BugXv14_getTemplate c stats et = TemplateMissing (errorMessage e) (map fst stats)"
  by (simp add: BugXv14_getTemplate_def andThen_def)

lemma phases2to5_without_template:
  assumes p2: "phase2_patternRecognition c workflowConfig errorDetails = Inr (pms, aps)"
      and p3: "phase3_contextAnalysis c errorDetails pms aps = Inr ca"
      and nf: "getTemplate c (inferErrorType (ed_message errorDetails) pms) = Inl e"
      and p5: "phase5_implementation c workflowConfig errorDetails
                 (inferErrorType (ed_message errorDetails) pms) ca pms None tk
               = Inr (steps, prevention)"
  shows "phases2to5 c workflowConfig errorDetails tk =
           Inr \<lparr>v_patternMatches = pms, v_antiPatterns = aps, v_contextAnalysis = ca,
                v_errorType = inferErrorType (ed_message errorDetails) pms,
                v_appliedTemplate = None, v_implementationSteps = steps,
                v_preventionMeasures = prevention\<rparr>"
  by (simp add: phases2to5_def andThen_def Let_def p2 p3 p5 phase4_not_found[OF nf])

text \<open>
  C4. \<open>getTemplate\<close> of the core system fails with NotFound for an error type that has
  no registered template, and \<open>BugXv14.getTemplate\<close> answers such a failure with
  \<open>success\<close> false. In a run in which the lookup for the inferred error type fails,
  while pattern recognition, context analysis and the implementation engine (called
  without a template) return, the failure is not propagated: phase 4 yields no template
  and the run returns \<open>success\<close> true, with no applied template, with the pattern
  matches, anti-patterns and prevention measures the other phases produced, and with the
  quality score of a run without template.
\<close>
theorem missing_template_is_not_a_failure:
  assumes p2: "phase2_patternRecognition c (mergeConfig (st_config st) options) errorDetails
               = Inr (pms, aps)"
      and p3: "phase3_contextAnalysis c errorDetails pms aps = Inr ca"
      and nf: "getTemplate c (inferErrorType (ed_message errorDetails) pms) = Inl e"
      and p5: "phase5_implementation c (mergeConfig (st_config st) options) errorDetails
                 (inferErrorType (ed_message errorDetails) pms) ca pms None (st_teamKnowledge st)
               = Inr (steps, prevention)"
  shows "(registry unregistered = None \<longrightarrow>
            BugXCoreSystem_getTemplate registry unregistered
              = Inl (NotFound (''No template found for error type: '' @ unregistered)))
         \<and> lookupSuccess
             (BugXv14_getTemplate c stats (inferErrorType (ed_message errorDetails) pms)) = False
         \<and> phase4_templateMatching c (inferErrorType (ed_message errorDetails) pms) = None
         \<and> res_success (fst (runCompleteWorkflow c inputs developer errorDetails options st))
         \<and> res_appliedTemplate (fst (runCompleteWorkflow c inputs developer errorDetails options st))
             = None
         \<and> res_patternMatches (fst (runCompleteWorkflow c inputs developer errorDetails options st))
             = pms
         \<and> res_antiPatterns (fst (runCompleteWorkflow c inputs developer errorDetails options st))
             = aps
         \<and> res_preventionMeasures (fst (runCompleteWorkflow c inputs developer errorDetails options st))
             = prevention
         \<and> m_qualityScore (res_metrics
               (fst (runCompleteWorkflow c inputs developer errorDetails options st)))
             = phase6_qualityValidation None prevention pms ca"
proof -
  note locals = phases2to5_without_template[OF p2 p3 nf p5]
  have "registry unregistered = None \<longrightarrow>
            BugXCoreSystem_getTemplate registry unregistered
              = Inl (NotFound (''No template found for error type: '' @ unregistered))"
    by (simp add: BugXCoreSystem_getTemplate_def)
  moreover have "lookupSuccess
      (BugXv14_getTemplate c stats (inferErrorType (ed_message errorDetails) pms)) = False"
    using nf by (simp add: BugXv14_getTemplate_not_found)
  ultimately show ?thesis
    using nf by (simp add: run_cases locals phases6to10_result phase4_not_found)
qed

text \<open>
  With an empty template registry the example run infers \<open>hydration_error\<close>, finds no
  template and completes successfully.
\<close>
theorem missing_template_is_not_a_failure_witness:
  "BugXCoreSystem_getTemplate Map.empty ''hydration_error''
     = Inl (NotFound ''No template found for error type: hydration_error'')
   \<and> res_success (fst (runCompleteWorkflow (exampleCollaborators Map.empty) exampleInputs ''dev''
        exampleError noOptions initialSystem))
   \<and> res_appliedTemplate (fst (runCompleteWorkflow (exampleCollaborators Map.empty) exampleInputs
        ''dev'' exampleError noOptions initialSystem)) = None
   \<and> res_preventionMeasures (fst (runCompleteWorkflow (exampleCollaborators Map.empty)
        exampleInputs ''dev'' exampleError noOptions initialSystem))
     = [''Lint for Math.random in render'']"
proof -
  let ?c = "exampleCollaborators Map.empty"
  let ?wc = "mergeConfig (st_config initialSystem) noOptions"
  have p2: "phase2_patternRecognition ?c ?wc exampleError = Inr ([exampleMatch], [criticalPattern])"
    by (simp add: phase2_patternRecognition_def andThen_def initialSystem_config
        exampleCollaborators_def)
  have p3: "phase3_contextAnalysis ?c exampleError [exampleMatch] [criticalPattern]
            = Inr exampleAnalysis"
    by (simp add: phase3_contextAnalysis_def exampleCollaborators_def)
  have nf: "getTemplate ?c (inferErrorType (ed_message exampleError) [exampleMatch])
            = Inl (NotFound ''No template found for error type: hydration_error'')"
    by (simp add: example_inferErrorType exampleCollaborators_def BugXCoreSystem_getTemplate_def)
  have p5: "phase5_implementation ?c ?wc exampleError
              (inferErrorType (ed_message exampleError) [exampleMatch]) exampleAnalysis
              [exampleMatch] None (st_teamKnowledge initialSystem)
            = Inr ([''Move the random value into an effect''], [''Lint for Math.random in render''])"
    by (simp add: phase5_implementation_def andThen_def initialSystem_config
        exampleCollaborators_def)
  from missing_template_is_not_a_failure[OF p2 p3 nf p5, where registry = Map.empty
      and unregistered = "''hydration_error''" and inputs = exampleInputs
      and developer = "''dev''"]
  show ?thesis
    by simp
qed

section \<open>Properties of the pattern recognition engine\<close>

lemma normalize_range: "hits \<le> highest \<Longrightarrow> 0 \<le> normalize hits highest \<and> normalize hits highest \<le> 100"
  by (simp add: normalize_def divide_le_eq)

lemma hits_le_highest:
  "keywordWeight lib * length (matchedKeywords sg searched)
     + clueWeight lib * length (matchedClues sg context)
   \<le> keywordWeight lib * length (sig_keywords sg) + clueWeight lib * length (sig_contextClues sg)"
  by (simp add: matchedKeywords_def matchedClues_def add_mono)

lemma matchSignature_range:
  assumes "matchSignature lib searched context sg = Some m"
  shows "0 \<le> pm_confidence m \<and> pm_confidence m \<le> 100"
proof -
  from assms have "pm_confidence m =
      normalize (keywordWeight lib * length (matchedKeywords sg searched)
                 + clueWeight lib * length (matchedClues sg context))
        (keywordWeight lib * length (sig_keywords sg)
         + clueWeight lib * length (sig_contextClues sg))"
    by (auto simp: matchSignature_def Let_def split: if_splits)
  then show ?thesis
    using normalize_range[OF hits_le_highest] by simp
qed

lemma matchSignature_no_hit:
  "matchedKeywords sg searched = [] \<Longrightarrow> matchedClues sg context = [] \<Longrightarrow>
   matchSignature lib searched context sg = None"
  by (simp add: matchSignature_def)

lemma map_filter_range:
  "list_all (\<lambda>m. 0 \<le> pm_confidence m \<and> pm_confidence m \<le> 100)
     (List.map_filter (matchSignature lib searched context) sigs)"
proof (induction sigs)
  case Nil
  then show ?case by simp
next
  case (Cons sg sigs)
  then show ?case
    using matchSignature_range[of lib searched "context" sg]
    by (cases "matchSignature lib searched context sg") simp_all
qed

lemma map_filter_no_hit:
  "list_all (\<lambda>sg. matchSignature lib searched context sg = None) sigs \<Longrightarrow>
   List.map_filter (matchSignature lib searched context) sigs = []"
  by (induction sigs) simp_all

lemma sorted_by_confidence:
  "sorted_wrt (\<lambda>a b. pm_confidence b \<le> pm_confidence a) (sort_key (\<lambda>m. - pm_confidence m) ms)"
proof -
  have "sorted (map (\<lambda>m. - pm_confidence m) (sort_key (\<lambda>m. - pm_confidence m) ms))"
    by (rule sorted_sort_key)
  then show ?thesis
    by (simp add: sorted_map)
qed

text \<open>
  C8. For all inputs, \<open>analyzeError\<close> returns its matches ordered by non-increasing
  confidence, every confidence lies within 0 and 100, and when no signature of the
  catalog has a keyword or context-clue hit it returns the empty list. It is a total
  function, so it does not throw. Matches of equal confidence keep the order of the
  catalog.
\<close>
theorem analyzeError_sorted_and_bounded:
  "sorted_wrt (\<lambda>a b. pm_confidence b \<le> pm_confidence a)
     (PatternRecognitionEngine_analyzeError lib message stackTrace codeContext fileName)
   \<and> list_all (\<lambda>m. 0 \<le> pm_confidence m \<and> pm_confidence m \<le> 100)
       (PatternRecognitionEngine_analyzeError lib message stackTrace codeContext fileName)
   \<and> (list_all (\<lambda>sg. matchedKeywords sg (message @ '' '' @ stackTrace @ '' '' @ codeContext) = []
                    \<and> matchedClues sg (codeContext @ '' '' @ fileName) = []) (catalog lib)
      \<longrightarrow> PatternRecognitionEngine_analyzeError lib message stackTrace codeContext fileName = [])
   \<and> (\<forall>confidence.
        filter (\<lambda>m. pm_confidence m = confidence)
          (PatternRecognitionEngine_analyzeError lib message stackTrace codeContext fileName)
        = filter (\<lambda>m. pm_confidence m = confidence)
            (List.map_filter
               (matchSignature lib (message @ '' '' @ stackTrace @ '' '' @ codeContext)
                  (codeContext @ '' '' @ fileName))
               (catalog lib)))"
proof -
  let ?ms = "List.map_filter
               (matchSignature lib (message @ '' '' @ stackTrace @ '' '' @ codeContext)
                  (codeContext @ '' '' @ fileName))
               (catalog lib)"
  have eq: "PatternRecognitionEngine_analyzeError lib message stackTrace codeContext fileName
            = sort_key (\<lambda>m. - pm_confidence m) ?ms"
    by (simp add: PatternRecognitionEngine_analyzeError_def)
  have "list_all (\<lambda>m. 0 \<le> pm_confidence m \<and> pm_confidence m \<le> 100)
          (sort_key (\<lambda>m. - pm_confidence m) ?ms)"
    using map_filter_range[of lib _ _ "catalog lib"] by (simp add: list_all_iff)
  moreover have "sort_key (\<lambda>m. - pm_confidence m) ?ms = []"
    if "list_all (\<lambda>sg. matchedKeywords sg (message @ '' '' @ stackTrace @ '' '' @ codeContext) = []
                    \<and> matchedClues sg (codeContext @ '' '' @ fileName) = []) (catalog lib)"
  proof -
    from that have "list_all (\<lambda>sg. matchSignature lib
          (message @ '' '' @ stackTrace @ '' '' @ codeContext) (codeContext @ '' '' @ fileName) sg
          = None) (catalog lib)"
      by (auto simp: list_all_iff matchSignature_no_hit)
    then show ?thesis
      by (simp add: map_filter_no_hit)
  qed
  moreover have "filter (\<lambda>m. pm_confidence m = confidence) (sort_key (\<lambda>m. - pm_confidence m) ?ms)
                 = filter (\<lambda>m. pm_confidence m = confidence) ?ms" for confidence
    using sort_key_stable[of "\<lambda>m. - pm_confidence m" "- confidence" ?ms] by simp
  ultimately show ?thesis
    unfolding eq using sorted_by_confidence by blast
qed



lemma example_no_match:
  "list_all (\<lambda>sg. matchedKeywords sg (''all good'' @ '' '' @ [] @ '' '' @ []) = []
                 \<and> matchedClues sg ([] @ '' '' @ []) = []) (catalog exampleLibrary)"
  by (simp add: exampleLibrary_def exampleSignature_def matchedKeywords_def matchedClues_def)

text \<open>
  The example error matches both signatures of the example catalog; the second one, with
  the higher confidence, comes first. A message without any keyword matches nothing.
\<close>
theorem analyzeError_sorted_and_bounded_witness:
  "map pm_confidence
     (PatternRecognitionEngine_analyzeError exampleLibrary (ed_message exampleError)
        (ed_stackTrace exampleError) (ed_codeContext exampleError) (ed_fileName exampleError))
   = [100, 50]
   \<and> map (sig_id \<circ> pm_signature)
       (PatternRecognitionEngine_analyzeError exampleLibrary (ed_message exampleError)
          (ed_stackTrace exampleError) (ed_codeContext exampleError) (ed_fileName exampleError))
     = [''hydration-mismatch'', ''scope'']
   \<and> PatternRecognitionEngine_analyzeError exampleLibrary ''all good'' [] [] [] = []"
proof -
  from analyzeError_sorted_and_bounded[where lib = exampleLibrary and message = "''all good''"
      and stackTrace = "[]" and codeContext = "[]" and fileName = "[]"] example_no_match
  have "PatternRecognitionEngine_analyzeError exampleLibrary ''all good'' [] [] [] = []"
    by blast
  then show ?thesis
    by (simp add: PatternRecognitionEngine_analyzeError_def exampleLibrary_def exampleError_def
      exampleSignature_def matchSignature_def matchedKeywords_def matchedClues_def
      normalize_def Let_def)
qed

end
